theory Spec2Isabelle
  imports
    Complex_Main
    "HOL-Library.AList"
    "HOL-Library.Char_ord"
    "HOL-Library.List_Lexorder"
    "HOL-Library.Product_Lexorder"
begin

section \<open>Files\<close>

text \<open>
  The scripts keep their state in plain files: the mirror configuration and the
  log with its numbered backups.  A file system is an association list from
  paths to contents with one binding per path; directories are not modelled.
  The contents type is a parameter: the log rotation only asks for a size, the
  configuration writers work on text.

  \<open>os.remove\<close> and \<open>os.rename\<close> raise \<open>OSError\<close> when the source is
  missing (\<open>None\<close> here); a rename replaces an existing target.
\<close>

type_synonym path = string

type_synonym 'c fs = "(path \<times> 'c) list"

definition exists_path :: "'c fs \<Rightarrow> path \<Rightarrow> bool" where
  "exists_path fs p = (map_of fs p \<noteq> None)"

definition os_remove :: "path \<Rightarrow> 'c fs \<Rightarrow> 'c fs option" where
  "os_remove p fs = (if exists_path fs p then Some (AList.delete p fs) else None)"

definition os_rename :: "path \<Rightarrow> path \<Rightarrow> 'c fs \<Rightarrow> 'c fs option" where
  "os_rename src dst fs =
     (case map_of fs src of
        None \<Rightarrow> None
      | Some c \<Rightarrow> Some (if src = dst then fs else AList.update dst c (AList.delete src fs)))"

subsection \<open>Decimal numbers in file names\<close>

fun string_of_nat :: "nat \<Rightarrow> string" where
  "string_of_nat n =
     (if n < 10 then [char_of (48 + n)]
      else string_of_nat (n div 10) @ [char_of (48 + n mod 10)])"

definition string_of_int :: "int \<Rightarrow> string" where
  "string_of_int i = (if i < 0 then CHR ''-'' # string_of_nat (nat (- i)) else string_of_nat (nat i))"

definition is_digit :: "char \<Rightarrow> bool" where
  "is_digit c = (CHR ''0'' \<le> c \<and> c \<le> CHR ''9'')"

definition digit_value :: "char \<Rightarrow> int" where
  "digit_value c = of_char c - 48"

definition int_of_digits :: "string \<Rightarrow> int" where
  "int_of_digits ds = foldl (\<lambda>acc c. 10 * acc + digit_value c) 0 ds"

text \<open>
  \<open>str.split(sep)\<close> for a one-character separator, and \<open>str.strip()\<close> for the
  ASCII blanks (space, tab, line feed, vertical tab, form feed, carriage return).
\<close>

fun split_on :: "char \<Rightarrow> string \<Rightarrow> string list" where
  "split_on sep [] = [[]]"
| "split_on sep (c # cs) =
     (if c = sep then [] # split_on sep cs
      else (case split_on sep cs of
              [] \<Rightarrow> [[c]]
            | w # ws \<Rightarrow> (c # w) # ws))"

definition is_blank :: "char \<Rightarrow> bool" where
  "is_blank c = (c = CHR '' '' \<or> (CHR 0x09 \<le> c \<and> c \<le> CHR 0x0D))"

definition py_strip :: "string \<Rightarrow> string" where
  "py_strip s = rev (dropWhile is_blank (rev (dropWhile is_blank s)))"

text \<open>
  \<open>int(s)\<close> on a string: blanks around, an optional sign, then decimal digits
  in groups separated by single underscores.  \<open>None\<close> is \<open>ValueError\<close>.
  Digits outside ASCII are not modelled.
\<close>

definition py_int :: "string \<Rightarrow> int option" where
  "py_int s =
     (let t = py_strip s;
          neg = (t \<noteq> [] \<and> hd t = CHR ''-'');
          body = (if t \<noteq> [] \<and> (hd t = CHR ''-'' \<or> hd t = CHR ''+'') then tl t else t);
          groups = split_on CHR ''_'' body
      in if list_all (\<lambda>g. g \<noteq> [] \<and> list_all is_digit g) groups
         then Some ((if neg then - 1 else 1) * int_of_digits (concat groups))
         else None)"

subsection \<open>Log rotation in the daemon (\<open>SimpleLogger.check_rotation\<close>)\<close>

definition LOG_FILE :: path where
  "LOG_FILE = ''/opt/cgit/data/logs/mirror-sync.log''"

definition MAX_LOG_SIZE :: int where
  "MAX_LOG_SIZE = 10 * 1024 * 1024"

definition MAX_ROTATED_LOGS :: nat where
  "MAX_ROTATED_LOGS = 3"

text \<open>
  \<open>glob.glob(pre + "*")\<close> for a pattern whose only wildcard is the final star:
  the paths that extend \<open>pre\<close> inside the same directory.
\<close>

definition glob_star :: "path \<Rightarrow> 'c fs \<Rightarrow> path list" where
  "glob_star pre fs =
     filter (\<lambda>p. take (length pre) p = pre \<and> CHR ''/'' \<notin> set (drop (length pre) p)) (map fst fs)"

text \<open>The two \<open>try\<close> blocks of the loops: a failing call changes nothing.\<close>

definition remove_ignoring :: "path \<Rightarrow> 'c fs \<Rightarrow> 'c fs" where
  "remove_ignoring old_log fs = (case os_remove old_log fs of None \<Rightarrow> fs | Some fs' \<Rightarrow> fs')"

definition rename_ignoring :: "path \<Rightarrow> path \<Rightarrow> 'c fs \<Rightarrow> 'c fs" where
  "rename_ignoring src dst fs = (case os_rename src dst fs of None \<Rightarrow> fs | Some fs' \<Rightarrow> fs')"

definition rotate_numbered :: "path \<Rightarrow> 'c fs \<Rightarrow> 'c fs" where
  "rotate_numbered old_log fs =
     (case py_int (last (split_on CHR ''.'' old_log)) of
        None \<Rightarrow> fs
      | Some num \<Rightarrow> rename_ignoring old_log (LOG_FILE @ ''.'' @ string_of_int (num + 1)) fs)"

text \<open>
  \<open>sorted(names, reverse=True)\<close> on distinct names is the ascending sort
  reversed; strings compare character by character, a proper prefix first.
\<close>

definition check_rotation :: "('c \<Rightarrow> int) \<Rightarrow> 'c fs \<Rightarrow> 'c fs" where
  "check_rotation getsize fs =
     (case map_of fs LOG_FILE of
        None \<Rightarrow> fs
      | Some c \<Rightarrow>
          if getsize c \<ge> MAX_LOG_SIZE then
            (let existing_logs = rev (sort (glob_star (LOG_FILE @ ''.'') fs));
                 fs1 = fold remove_ignoring (drop (MAX_ROTATED_LOGS - 1) existing_logs) fs;
                 fs2 = fold rotate_numbered (take (MAX_ROTATED_LOGS - 1) existing_logs) fs1
             in rename_ignoring LOG_FILE (LOG_FILE @ ''.1'') fs2)
          else fs)"

subsection \<open>Log rotation in the logger module (\<open>MirrorLogger._rotate_logs\<close>)\<close>

definition backup_name :: "path \<Rightarrow> nat \<Rightarrow> path" where
  "backup_name log_file i = log_file @ ''.'' @ string_of_nat i"

fun shift_backups :: "path \<Rightarrow> nat list \<Rightarrow> 'c fs \<Rightarrow> 'c fs option" where
  "shift_backups log_file [] fs = Some fs"
| "shift_backups log_file (i # js) fs =
     (let old_log = backup_name log_file i;
          new_log = backup_name log_file (i + 1)
      in Option.bind (if exists_path fs old_log then os_rename old_log new_log fs else Some fs)
           (shift_backups log_file js))"

definition rotate_logs :: "path \<Rightarrow> 'c fs \<Rightarrow> 'c fs option" where
  "rotate_logs log_file fs =
     (let oldest_log = backup_name log_file MAX_ROTATED_LOGS
      in Option.bind (if exists_path fs oldest_log then os_remove oldest_log fs else Some fs)
           (\<lambda>fs1. Option.bind (shift_backups log_file (rev [1..<MAX_ROTATED_LOGS]) fs1)
              (\<lambda>fs2. if exists_path fs2 log_file
                      then os_rename log_file (backup_name log_file 1) fs2
                      else Some fs2)))"

definition rotate_if_needed :: "('c \<Rightarrow> int) \<Rightarrow> path \<Rightarrow> 'c fs \<Rightarrow> 'c fs option" where
  "rotate_if_needed getsize log_file fs =
     (case map_of fs log_file of
        None \<Rightarrow> Some fs
      | Some c \<Rightarrow> if getsize c \<ge> MAX_LOG_SIZE then rotate_logs log_file fs else Some fs)"

section \<open>Writing the configuration file\<close>

text \<open>
  A save is a sequence of file-system steps; a process that dies after \<open>k\<close> of
  them leaves the state \<open>crash_after k\<close>.  \<open>open(p, 'w')\<close> creates or truncates
  the file, each write appends a piece of the serialised text (any split of the
  text into pieces is allowed), and the rename moves the finished file.
\<close>

datatype fs_step = Open_w path | Write path string | Rename path path

fun do_step :: "fs_step \<Rightarrow> string fs \<Rightarrow> string fs" where
  "do_step (Open_w p) fs = AList.update p [] fs"
| "do_step (Write p s) fs =
     (case map_of fs p of None \<Rightarrow> fs | Some c \<Rightarrow> AList.update p (c @ s) fs)"
| "do_step (Rename src dst) fs = rename_ignoring src dst fs"

definition crash_after :: "nat \<Rightarrow> fs_step list \<Rightarrow> string fs \<Rightarrow> string fs" where
  "crash_after k steps fs = fold do_step (take k steps) fs"

text \<open>
  \<open>MirrorConfig.save\<close> of the CLI manager: the text goes to
  \<open>config_file + ".tmp"\<close>, which is then renamed over the configuration file.
\<close>

definition save_steps :: "path \<Rightarrow> string list \<Rightarrow> fs_step list" where
  "save_steps config_file chunks =
     (let temp_file = config_file @ ''.tmp''
      in Open_w temp_file # map (Write temp_file) chunks @ [Rename temp_file config_file])"

text \<open>
  \<open>SimpleConfigManager.save_config\<close> of the daemon: the configuration file
  itself is opened for writing.
\<close>

definition CONFIG_FILE :: path where
  "CONFIG_FILE = ''/opt/cgit/data/mirror-config.json''"

definition save_config_steps :: "path \<Rightarrow> string list \<Rightarrow> fs_step list" where
  "save_config_steps config_file chunks = Open_w config_file # map (Write config_file) chunks"

text \<open>
  An I/O fault is the index of the step that raises \<open>OSError\<close>; the steps
  before it have taken effect.  The manager catches the error and answers
  \<open>False\<close>; in the daemon it propagates.
\<close>

definition faulty :: "nat option \<Rightarrow> fs_step list \<Rightarrow> bool" where
  "faulty fault steps = (case fault of None \<Rightarrow> False | Some k \<Rightarrow> k < length steps)"

definition run_steps :: "nat option \<Rightarrow> fs_step list \<Rightarrow> string fs \<Rightarrow> string fs" where
  "run_steps fault steps fs =
     (case fault of None \<Rightarrow> fold do_step steps fs | Some k \<Rightarrow> crash_after k steps fs)"

definition save :: "path \<Rightarrow> string list \<Rightarrow> nat option \<Rightarrow> string fs \<Rightarrow> bool \<times> string fs" where
  "save config_file chunks fault fs =
     (let steps = save_steps config_file chunks
      in (\<not> faulty fault steps, run_steps fault steps fs))"

section \<open>Python values\<close>

text \<open>
  The configuration is what \<open>json.load\<close> returns: nested dictionaries, lists,
  strings, integers, booleans and \<open>None\<close>.  A dictionary is an association
  list in insertion order with one binding per key.  Numbers with a fraction
  are not modelled; the scripts store none except the optional
  \<open>last_duration\<close> of the CLI.
\<close>

datatype json =
    JNull
  | JBool bool
  | JInt int
  | JStr (str_of: string)
  | JArr "json list"
  | JObj "(string \<times> json) list"

datatype py_exn = KeyError | TypeError | AttributeError | ValueError | OSError | LibraryError

text \<open>Truth value testing, as \<open>if x\<close>, \<open>not x\<close> and \<open>x or y\<close> use it.\<close>

fun truthy :: "json \<Rightarrow> bool" where
  "truthy JNull = False"
| "truthy (JBool b) = b"
| "truthy (JInt i) = (i \<noteq> 0)"
| "truthy (JStr s) = (s \<noteq> [])"
| "truthy (JArr xs) = (xs \<noteq> [])"
| "truthy (JObj kvs) = (kvs \<noteq> [])"

definition py_or :: "json \<Rightarrow> json \<Rightarrow> json" where
  "py_or x y = (if truthy x then x else y)"

text \<open>
  A raising computation is a value \<open>Inl e\<close>; \<open>py_bind\<close> runs the next
  statement on a result and passes an exception on.
\<close>

definition py_bind :: "py_exn + 'a \<Rightarrow> ('a \<Rightarrow> py_exn + 'b) \<Rightarrow> py_exn + 'b" where
  "py_bind m f = (case m of Inl e \<Rightarrow> Inl e | Inr x \<Rightarrow> f x)"

text \<open>
  \<open>d.get(k, default)\<close>, \<open>d[k]\<close>, \<open>d.items()\<close>, \<open>k in d\<close> and \<open>d[k] = v\<close> on
  any value.  Only a dictionary has \<open>get\<close> and \<open>items\<close>; subscripting
  anything else with a string, or assigning through it, is a \<open>TypeError\<close>;
  membership looks at the keys of a dictionary, the elements of a list and the
  substrings of a string.
\<close>

definition py_get :: "json \<Rightarrow> string \<Rightarrow> json \<Rightarrow> py_exn + json" where
  "py_get d k dflt =
     (case d of
        JObj kvs \<Rightarrow> Inr (case map_of kvs k of None \<Rightarrow> dflt | Some v \<Rightarrow> v)
      | _ \<Rightarrow> Inl AttributeError)"

definition py_getitem :: "json \<Rightarrow> string \<Rightarrow> py_exn + json" where
  "py_getitem d k =
     (case d of
        JObj kvs \<Rightarrow> (case map_of kvs k of None \<Rightarrow> Inl KeyError | Some v \<Rightarrow> Inr v)
      | _ \<Rightarrow> Inl TypeError)"

definition py_items :: "json \<Rightarrow> py_exn + (string \<times> json) list" where
  "py_items d = (case d of JObj kvs \<Rightarrow> Inr kvs | _ \<Rightarrow> Inl AttributeError)"

fun is_substring :: "string \<Rightarrow> string \<Rightarrow> bool" where
  "is_substring s [] = (s = [])"
| "is_substring s (c # cs) = (take (length s) (c # cs) = s \<or> is_substring s cs)"

definition py_contains :: "string \<Rightarrow> json \<Rightarrow> py_exn + bool" where
  "py_contains k d =
     (case d of
        JObj kvs \<Rightarrow> Inr (map_of kvs k \<noteq> None)
      | JArr xs \<Rightarrow> Inr (JStr k \<in> set xs)
      | JStr s \<Rightarrow> Inr (is_substring k s)
      | _ \<Rightarrow> Inl TypeError)"

definition py_setitem :: "json \<Rightarrow> string \<Rightarrow> json \<Rightarrow> py_exn + json" where
  "py_setitem d k v =
     (case d of
        JObj kvs \<Rightarrow> Inr (JObj (AList.update k v kvs))
      | _ \<Rightarrow> Inl TypeError)"

text \<open>A \<open>for\<close> loop whose body may raise: the first exception ends it.\<close>

fun for_each :: "('a \<Rightarrow> py_exn + 'b) \<Rightarrow> 'a list \<Rightarrow> py_exn + 'b list" where
  "for_each f [] = Inr []"
| "for_each f (x # xs) =
     (case f x of
        Inl e \<Rightarrow> Inl e
      | Inr v \<Rightarrow> (case for_each f xs of Inl e \<Rightarrow> Inl e | Inr vs \<Rightarrow> Inr (v # vs)))"

text \<open>
  \<open>xs.sort(key=f)\<close> where every key is a string, as the text below shows the
  keys of the due lists to be: the keys are computed first, then the list is
  sorted stably by them.  A list whose keys are not all strings is outside what
  the scripts produce and is answered with the \<open>TypeError\<close> of a mixed
  comparison.
\<close>

definition key_string :: "py_exn + json \<Rightarrow> string" where
  "key_string r = (case r of Inr (JStr s) \<Rightarrow> s | _ \<Rightarrow> [])"

definition sort_by_string_key :: "('a \<Rightarrow> py_exn + json) \<Rightarrow> 'a list \<Rightarrow> py_exn + 'a list" where
  "sort_by_string_key f xs =
     py_bind (for_each f xs)
       (\<lambda>keys. if list_all is_JStr keys
               then Inr (sort_key (\<lambda>x. key_string (f x)) xs)
               else Inl TypeError)"

section \<open>Dates, the clock and the libraries\<close>

text \<open>
  A \<open>datetime\<close> is its calendar fields (year, month, day, hour, minute, second,
  microsecond) and an optional UTC offset in minutes; naive values compare
  field by field.  \<open>datetime.now()\<close> is naive, so the evaluation time is passed
  as its fields.  Comparing an aware value with it is a \<open>TypeError\<close>.
\<close>

type_synonym wallclock = "int \<times> int \<times> int \<times> int \<times> int \<times> int \<times> int"

datatype datetime = Datetime (wall: wallclock) (tzinfo: "int option")

definition le_now :: "datetime \<Rightarrow> wallclock \<Rightarrow> py_exn + bool" where
  "le_now d now = (case tzinfo d of None \<Rightarrow> Inr (wall d \<le> now) | Some off \<Rightarrow> Inl TypeError)"

text \<open>
  The libraries the scripts call are parameters of the model:
  \<^item> \<open>croniter_next schedule start\<close> is \<open>croniter(schedule, start).get_next(datetime)\<close>,
    \<open>None\<close> when either call raises;
  \<^item> \<open>fromisoformat\<close> and \<open>isoformat\<close> are those of \<open>datetime\<close>, \<open>None\<close> for
    \<open>ValueError\<close>;
  \<^item> \<open>json_dump\<close> is the text \<open>json.dump(config, f, indent=2)\<close> writes, in the
    pieces it is written in;
  \<^item> \<open>format_value\<close> is the text of a value inside an f-string.
\<close>

record pylib =
  croniter_next :: "json \<Rightarrow> datetime \<Rightarrow> datetime option"
  fromisoformat :: "string \<Rightarrow> datetime option"
  isoformat :: "datetime \<Rightarrow> string"
  json_dump :: "json \<Rightarrow> string list"
  format_value :: "json \<Rightarrow> string"

section \<open>Which mirrors are due\<close>

text \<open>
  The outcome of looking at one entry of \<open>mirrors\<close>: skipped because it is not
  enabled, not yet due, due (with what the caller gets for it), or, in the
  daemon, given up with an error line in the log.
\<close>

datatype 'a verdict = Skipped | Not_due | Is_due 'a | Errored string py_exn

fun selected :: "'a verdict list \<Rightarrow> 'a list" where
  "selected [] = []"
| "selected (Is_due d # vs) = d # selected vs"
| "selected (v # vs) = selected vs"

fun logged :: "'a verdict list \<Rightarrow> (string \<times> py_exn) list" where
  "logged [] = []"
| "logged (Errored repo_name e # vs) = (repo_name, e) # logged vs"
| "logged (v # vs) = logged vs"

definition cron_next :: "pylib \<Rightarrow> json \<Rightarrow> datetime \<Rightarrow> py_exn + datetime" where
  "cron_next lib schedule start =
     (case croniter_next lib schedule start of None \<Rightarrow> Inl LibraryError | Some d \<Rightarrow> Inr d)"

text \<open>\<open>self.config["defaults"][k]\<close>\<close>

definition default_of :: "json \<Rightarrow> string \<Rightarrow> py_exn + json" where
  "default_of config k = py_bind (py_getitem config ''defaults'') (\<lambda>defaults. py_getitem defaults k)"

subsection \<open>The daemon (\<open>SimpleConfigManager.get_due_mirrors\<close>)\<close>

text \<open>An element of the daemon's due list: the keys \<open>name\<close>, \<open>timeout\<close>, \<open>last_sync\<close>.\<close>

datatype due_mirror = Due_mirror (due_name: string) (due_timeout: json) (due_last_sync: json)

definition never_synced :: datetime where
  "never_synced = Datetime (2000, 1, 1, 0, 0, 0, 0) None"

definition replace_Z :: "string \<Rightarrow> string" where
  "replace_Z s = concat (map (\<lambda>c. if c = CHR ''Z'' then ''+00:00'' else [c]) s)"

text \<open>
  The start of the cron evaluation: the stored time without its time zone, or
  the first of January 2000 for a mirror that has none.  A stored value that is
  not a string has no \<open>replace\<close>.
\<close>

definition parse_last_sync :: "pylib \<Rightarrow> json \<Rightarrow> py_exn + datetime" where
  "parse_last_sync lib last_sync_str =
     (if truthy last_sync_str then
        (case last_sync_str of
           JStr s \<Rightarrow>
             (case fromisoformat lib (replace_Z s) of
                None \<Rightarrow> Inl ValueError
              | Some d \<Rightarrow> Inr (Datetime (wall d) None))
         | _ \<Rightarrow> Inl AttributeError)
      else Inr never_synced)"

text \<open>The body of the \<open>try\<close> block.\<close>

definition daemon_try ::
  "pylib \<Rightarrow> wallclock \<Rightarrow> json \<Rightarrow> string \<Rightarrow> json \<Rightarrow> json \<Rightarrow> json \<Rightarrow> py_exn + due_mirror option" where
  "daemon_try lib now config repo_name mirror schedule last_sync_str =
     py_bind (parse_last_sync lib last_sync_str) (\<lambda>last_sync.
     py_bind (cron_next lib schedule last_sync) (\<lambda>next_sync.
     py_bind (le_now next_sync now) (\<lambda>due.
       if due then
         py_bind (default_of config ''timeout'') (\<lambda>dflt.
         py_bind (py_get mirror ''timeout'' dflt) (\<lambda>t.
           Inr (Some (Due_mirror repo_name t last_sync_str))))
       else Inr None)))"

text \<open>
  The body of the loop.  What is outside the \<open>try\<close> block (reading \<open>enabled\<close>,
  the default schedule, \<open>schedule\<close> and \<open>last_sync\<close>) ends the whole call when
  it raises.
\<close>

definition daemon_entry :: "pylib \<Rightarrow> wallclock \<Rightarrow> json \<Rightarrow> string \<times> json \<Rightarrow> py_exn + due_mirror verdict" where
  "daemon_entry lib now config item =
     (case item of (repo_name, mirror) \<Rightarrow>
        py_bind (py_get mirror ''enabled'' (JBool True)) (\<lambda>enabled.
          if \<not> truthy enabled then Inr Skipped
          else
            py_bind (default_of config ''schedule'') (\<lambda>dflt.
            py_bind (py_get mirror ''schedule'' dflt) (\<lambda>schedule.
            py_bind (py_get mirror ''last_sync'' JNull) (\<lambda>last_sync_str.
              Inr (case daemon_try lib now config repo_name mirror schedule last_sync_str of
                     Inl e \<Rightarrow> Errored repo_name e
                   | Inr None \<Rightarrow> Not_due
                   | Inr (Some d) \<Rightarrow> Is_due d))))))"

text \<open>
  The result is the sorted due list and the error lines written on the way.
  The sort key is \<open>x['last_sync'] or ''\<close>.
\<close>

definition daemon_get_due_mirrors ::
  "pylib \<Rightarrow> wallclock \<Rightarrow> json \<Rightarrow> py_exn + (due_mirror list \<times> (string \<times> py_exn) list)" where
  "daemon_get_due_mirrors lib now config =
     py_bind (py_get config ''mirrors'' (JObj [])) (\<lambda>mirrors.
     py_bind (py_items mirrors) (\<lambda>items.
     py_bind (for_each (daemon_entry lib now config) items) (\<lambda>verdicts.
     py_bind (sort_by_string_key (\<lambda>x. Inr (py_or (due_last_sync x) (JStr []))) (selected verdicts)) (\<lambda>due_mirrors.
       Inr (due_mirrors, logged verdicts)))))"

subsection \<open>The CLI manager (\<open>MirrorConfig.get_due_mirrors\<close>)\<close>

text \<open>
  The body of the \<open>try\<close> block: the cron evaluation starts at the stored time,
  or at the evaluation time itself for a mirror that has none.
\<close>

definition manager_try :: "pylib \<Rightarrow> wallclock \<Rightarrow> json \<Rightarrow> py_exn + bool" where
  "manager_try lib now mirror =
     py_bind (py_getitem mirror ''schedule'') (\<lambda>schedule.
     py_bind (py_get mirror ''last_sync'' JNull) (\<lambda>stored.
     py_bind (if truthy stored then
                py_bind (py_getitem mirror ''last_sync'') (\<lambda>v.
                  case v of
                    JStr s \<Rightarrow> (case fromisoformat lib s of None \<Rightarrow> Inl ValueError | Some d \<Rightarrow> Inr d)
                  | _ \<Rightarrow> Inl TypeError)
              else Inr (Datetime now None)) (\<lambda>start.
     py_bind (cron_next lib schedule start) (\<lambda>next_sync.
       le_now next_sync now))))"

text \<open>
  The body of the loop; the \<open>except\<close> branch puts the mirror on the list when
  its \<open>last_sync\<close> is \<open>None\<close>.
\<close>

definition manager_entry :: "pylib \<Rightarrow> wallclock \<Rightarrow> string \<times> json \<Rightarrow> py_exn + (string \<times> json) verdict" where
  "manager_entry lib now item =
     (case item of (repo_name, mirror) \<Rightarrow>
        py_bind (py_get mirror ''enabled'' (JBool False)) (\<lambda>enabled.
          if \<not> truthy enabled then Inr Skipped
          else
            (case manager_try lib now mirror of
               Inr due \<Rightarrow> Inr (if due then Is_due (repo_name, mirror) else Not_due)
             | Inl e \<Rightarrow>
                 py_bind (py_get mirror ''last_sync'' JNull) (\<lambda>stored.
                   Inr (if stored = JNull then Is_due (repo_name, mirror) else Not_due)))))"

definition manager_get_due_mirrors :: "pylib \<Rightarrow> wallclock \<Rightarrow> json \<Rightarrow> py_exn + (string \<times> json) list" where
  "manager_get_due_mirrors lib now config =
     py_bind (py_getitem config ''mirrors'') (\<lambda>mirrors.
     py_bind (py_items mirrors) (\<lambda>items.
     py_bind (for_each (manager_entry lib now) items) (\<lambda>verdicts.
       sort_by_string_key
         (\<lambda>x. py_bind (py_get (snd x) ''last_sync'' JNull) (\<lambda>v. Inr (py_or v (JStr []))))
         (selected verdicts))))"

subsection \<open>The due list and the names on it\<close>


definition manager_due_list :: "pylib \<Rightarrow> wallclock \<Rightarrow> json \<Rightarrow> (string \<times> json) list" where
  "manager_due_list lib now config =
     (case manager_get_due_mirrors lib now config of
        Inl e \<Rightarrow> []
      | Inr due_mirrors \<Rightarrow> due_mirrors)"

definition daemon_due_names :: "pylib \<Rightarrow> wallclock \<Rightarrow> json \<Rightarrow> string list" where
  "daemon_due_names lib now config =
     (case daemon_get_due_mirrors lib now config of
        Inl e \<Rightarrow> []
      | Inr (due_mirrors, errors) \<Rightarrow> map due_name due_mirrors)"

definition manager_due_names :: "pylib \<Rightarrow> wallclock \<Rightarrow> json \<Rightarrow> string list" where
  "manager_due_names lib now config =
     (case manager_get_due_mirrors lib now config of
        Inl e \<Rightarrow> []
      | Inr due_mirrors \<Rightarrow> map fst due_mirrors)"

subsection \<open>The sort keys\<close>

text \<open>
  The text the due lists are sorted by: the key \<open>v or ''\<close> of a stored
  \<open>last_sync\<close> value \<open>v\<close>, and what \<open>mirror.get("last_sync")\<close> gives for an
  entry.
\<close>

definition last_sync_key :: "json \<Rightarrow> string" where
  "last_sync_key v = key_string (Inr (py_or v (JStr [])))"

definition stored_last_sync :: "json \<Rightarrow> json" where
  "stored_last_sync mirror = (case py_get mirror ''last_sync'' JNull of Inl e \<Rightarrow> JNull | Inr v \<Rightarrow> v)"


text \<open>The configuration with another dictionary of mirrors.\<close>

definition with_mirrors :: "json \<Rightarrow> (string \<times> json) list \<Rightarrow> json" where
  "with_mirrors config items =
     (case py_setitem config ''mirrors'' (JObj items) of Inl e \<Rightarrow> config | Inr config' \<Rightarrow> config')"



section \<open>Changing the configuration\<close>

text \<open>
  The state is the configuration in memory and the file system.  An operation
  returns what the Python method returns (\<open>JNull\<close> for \<open>None\<close>) or the
  exception it ends with, and the new state.  The entry of a mirror is changed
  in place; \<open>store_mirror\<close> gives the configuration with the changed entry.
\<close>

type_synonym state = "json \<times> string fs"

type_synonym outcome = "(py_exn + json) \<times> json \<times> string fs"

definition store_mirror :: "json \<Rightarrow> string \<Rightarrow> json \<Rightarrow> json" where
  "store_mirror config repo_name mirror =
     (case py_bind (py_getitem config ''mirrors'') (\<lambda>mirrors.
           py_bind (py_setitem mirrors repo_name mirror) (py_setitem config ''mirrors'')) of
        Inl e \<Rightarrow> config
      | Inr config' \<Rightarrow> config')"

subsection \<open>The daemon (\<open>SimpleConfigManager\<close>)\<close>

definition save_config :: "pylib \<Rightarrow> path \<Rightarrow> json \<Rightarrow> nat option \<Rightarrow> string fs \<Rightarrow> py_exn option \<times> string fs" where
  "save_config lib config_file config fault fs =
     (let steps = save_config_steps config_file (json_dump lib config)
      in (if faulty fault steps then Some OSError else None, run_steps fault steps fs))"

text \<open>The \<open>try\<close> block of \<open>update_sync_status\<close>: on any exception \<open>next_sync\<close> stays.\<close>

definition daemon_next_sync :: "pylib \<Rightarrow> wallclock \<Rightarrow> json \<Rightarrow> json \<Rightarrow> json" where
  "daemon_next_sync lib now config mirror =
     (case py_bind (default_of config ''schedule'') (\<lambda>dflt.
           py_bind (py_get mirror ''schedule'' dflt) (\<lambda>schedule.
           py_bind (cron_next lib schedule (Datetime now None)) (\<lambda>next_sync.
             py_setitem mirror ''next_sync'' (JStr (isoformat lib next_sync @ ''Z''))))) of
        Inl e \<Rightarrow> mirror
      | Inr mirror' \<Rightarrow> mirror')"

text \<open>
  \<open>t1\<close> and \<open>t2\<close> are the two readings of the clock, \<open>fault\<close> the I/O fault of
  the save, if any.
\<close>

definition daemon_update_sync_status ::
  "pylib \<Rightarrow> wallclock \<Rightarrow> wallclock \<Rightarrow> nat option \<Rightarrow> string \<Rightarrow> string \<Rightarrow> json \<Rightarrow> state \<Rightarrow> outcome" where
  "daemon_update_sync_status lib t1 t2 fault repo_name status error_message st =
     (case st of (config, fs) \<Rightarrow>
        (case py_bind (py_get config ''mirrors'' (JObj [])) (py_contains repo_name) of
           Inl e \<Rightarrow> (Inl e, config, fs)
         | Inr False \<Rightarrow> (Inr JNull, config, fs)
         | Inr True \<Rightarrow>
             (case py_bind (py_getitem config ''mirrors'') (\<lambda>mirrors.
                   py_bind (py_getitem mirrors repo_name) (\<lambda>mirror.
                   py_bind (py_setitem mirror ''last_sync'' (JStr (isoformat lib (Datetime t1 None) @ ''Z''))) (\<lambda>m1.
                   py_bind (py_setitem m1 ''last_status'' (JStr status)) (\<lambda>m2.
                     py_setitem m2 ''last_error'' error_message)))) of
                Inl e \<Rightarrow> (Inl e, config, fs)
              | Inr m3 \<Rightarrow>
                  (let config' = store_mirror config repo_name (daemon_next_sync lib t2 config m3)
                   in (case save_config lib CONFIG_FILE config' fault fs of
                         (None, fs') \<Rightarrow> (Inr JNull, config', fs')
                       | (Some e, fs') \<Rightarrow> (Inl e, config', fs'))))))"

subsection \<open>The CLI manager (\<open>MirrorConfig\<close>)\<close>

text \<open>\<open>_calculate_next_sync\<close>: the text of the next time, or \<open>None\<close>.\<close>

definition calculate_next_sync :: "pylib \<Rightarrow> wallclock \<Rightarrow> json \<Rightarrow> json" where
  "calculate_next_sync lib now schedule =
     (case cron_next lib schedule (Datetime now None) of
        Inl e \<Rightarrow> JNull
      | Inr next_time \<Rightarrow> JStr (isoformat lib next_time))"

text \<open>
  \<open>update_sync_status(repo_name, status, error, duration)\<close>; \<open>JNull\<close> stands for
  an argument left at \<open>None\<close>.  A mirror without a \<open>schedule\<close> ends the call
  with \<open>KeyError\<close> after its entry has been changed in memory.
\<close>

definition manager_update_sync_status ::
  "pylib \<Rightarrow> path \<Rightarrow> wallclock \<Rightarrow> wallclock \<Rightarrow> nat option \<Rightarrow> string \<Rightarrow> string \<Rightarrow> json \<Rightarrow> json \<Rightarrow> state \<Rightarrow> outcome" where
  "manager_update_sync_status lib config_file t1 t2 fault repo_name status error duration st =
     (case st of (config, fs) \<Rightarrow>
        (case py_bind (py_getitem config ''mirrors'') (py_contains repo_name) of
           Inl e \<Rightarrow> (Inl e, config, fs)
         | Inr False \<Rightarrow> (Inr (JBool False), config, fs)
         | Inr True \<Rightarrow>
             (case py_bind (py_getitem config ''mirrors'') (\<lambda>mirrors.
                   py_bind (py_getitem mirrors repo_name) (\<lambda>mirror.
                   py_bind (py_setitem mirror ''last_sync'' (JStr (isoformat lib (Datetime t1 None)))) (\<lambda>m1.
                   py_bind (py_setitem m1 ''last_status'' (JStr status)) (\<lambda>m2.
                   py_bind (py_setitem m2 ''last_error'' error) (\<lambda>m3.
                     if duration \<noteq> JNull then py_setitem m3 ''last_duration'' duration else Inr m3))))) of
                Inl e \<Rightarrow> (Inl e, config, fs)
              | Inr m4 \<Rightarrow>
                  (case py_getitem m4 ''schedule'' of
                     Inl e \<Rightarrow> (Inl e, store_mirror config repo_name m4, fs)
                   | Inr schedule \<Rightarrow>
                       (case py_setitem m4 ''next_sync'' (calculate_next_sync lib t2 schedule) of
                          Inl e \<Rightarrow> (Inl e, store_mirror config repo_name m4, fs)
                        | Inr m5 \<Rightarrow>
                            (let config' = store_mirror config repo_name m5
                             in (case save config_file (json_dump lib config') fault fs of
                                   (ok, fs') \<Rightarrow> (Inr (JBool ok), config', fs'))))))))"

definition disable_mirror :: "pylib \<Rightarrow> path \<Rightarrow> nat option \<Rightarrow> string \<Rightarrow> state \<Rightarrow> outcome" where
  "disable_mirror lib config_file fault repo_name st =
     (case st of (config, fs) \<Rightarrow>
        (case py_bind (py_getitem config ''mirrors'') (py_contains repo_name) of
           Inl e \<Rightarrow> (Inl e, config, fs)
         | Inr False \<Rightarrow> (Inr (JBool False), config, fs)
         | Inr True \<Rightarrow>
             (case py_bind (py_getitem config ''mirrors'') (\<lambda>mirrors.
                   py_bind (py_getitem mirrors repo_name) (\<lambda>mirror.
                     py_setitem mirror ''enabled'' (JBool False))) of
                Inl e \<Rightarrow> (Inl e, config, fs)
              | Inr mirror' \<Rightarrow>
                  (let config' = store_mirror config repo_name mirror'
                   in (case save config_file (json_dump lib config') fault fs of
                         (ok, fs') \<Rightarrow> (Inr (JBool ok), config', fs'))))))"

section \<open>Running one synchronisation\<close>







text \<open>The status a configuration holds for a mirror: \<open>config["mirrors"][name]["last_status"]\<close>.\<close>

definition recorded_status :: "json \<Rightarrow> string \<Rightarrow> py_exn + json" where
  "recorded_status config repo_name =
     py_bind (py_getitem config ''mirrors'') (\<lambda>mirrors.
     py_bind (py_getitem mirrors repo_name) (\<lambda>mirror.
       py_getitem mirror ''last_status''))"

section \<open>An instance of the libraries\<close>

text \<open>
  For evaluating the scripts on concrete configurations the library functions
  are instantiated on the part of their domain the examples need.

  The cron evaluator knows two schedules: \<open>0 */6 * * *\<close>, the scripts'
  default (minute 0 of the hours 0, 6, 12 and 18), and \<open>0 0 1 1 *\<close> (midnight
  of every first of January).  It answers with the first such time strictly
  after the start and keeps the start's time zone.  Every other expression is
  rejected, as an unparsable one is.
\<close>

definition is_leap :: "int \<Rightarrow> bool" where
  "is_leap y = (if y mod 100 = 0 then y mod 400 = 0 else y mod 4 = 0)"

definition days_in_month :: "int \<Rightarrow> int \<Rightarrow> int" where
  "days_in_month y m =
     (if m = 2 then (if is_leap y then 29 else 28)
      else if m = 4 \<or> m = 6 \<or> m = 9 \<or> m = 11 then 30
      else 31)"

definition next_midnight :: "int \<Rightarrow> int \<Rightarrow> int \<Rightarrow> wallclock" where
  "next_midnight y m d =
     (if d < days_in_month y m then (y, m, d + 1, 0, 0, 0, 0)
      else if m < 12 then (y, m + 1, 1, 0, 0, 0, 0)
      else (y + 1, 1, 1, 0, 0, 0, 0))"

definition croniter_example :: "json \<Rightarrow> datetime \<Rightarrow> datetime option" where
  "croniter_example schedule start =
     (case start of Datetime (y, m, d, h, mi, s, us) tz \<Rightarrow>
        if schedule = JStr ''0 */6 * * *'' then
          Some (Datetime (if h < 18 then (y, m, d, 6 * (h div 6 + 1), 0, 0, 0)
                          else next_midnight y m d) tz)
        else if schedule = JStr ''0 0 1 1 *'' then
          Some (Datetime (y + 1, 1, 1, 0, 0, 0, 0) tz)
        else None)"

text \<open>
  \<open>datetime.fromisoformat\<close> on the texts \<open>isoformat\<close> writes:
  \<open>YYYY-MM-DDTHH:MM:SS\<close>, then optionally a point and six digits of
  microseconds, then optionally an offset \<open>+HH:MM\<close> or \<open>-HH:MM\<close>.  Other
  spellings are answered with \<open>None\<close> here.
\<close>

definition field :: "string \<Rightarrow> nat \<Rightarrow> nat \<Rightarrow> int option" where
  "field s i n =
     (let ds = take n (drop i s)
      in if length ds = n \<and> list_all is_digit ds then Some (int_of_digits ds) else None)"

definition parse_fraction :: "string \<Rightarrow> (int \<times> string) option" where
  "parse_fraction r =
     (if r \<noteq> [] \<and> hd r = CHR ''.''
      then map_option (\<lambda>us. (us, drop 7 r)) (field r 1 6)
      else Some (0, r))"

definition parse_offset :: "string \<Rightarrow> int option option" where
  "parse_offset r =
     (if r = [] then Some None
      else if length r = 6 \<and> (hd r = CHR ''+'' \<or> hd r = CHR ''-'') \<and> r ! 3 = CHR '':'' then
        (case (field r 1 2, field r 4 2) of
           (Some h, Some m) \<Rightarrow>
             if h < 24 \<and> m < 60
             then Some (Some ((if hd r = CHR ''-'' then - 1 else 1) * (60 * h + m)))
             else None
         | _ \<Rightarrow> None)
      else None)"

definition fromisoformat_example :: "string \<Rightarrow> datetime option" where
  "fromisoformat_example s =
     (if 19 \<le> length s \<and> s ! 4 = CHR ''-'' \<and> s ! 7 = CHR ''-'' \<and> s ! 10 = CHR ''T''
         \<and> s ! 13 = CHR '':'' \<and> s ! 16 = CHR '':'' then
        (case (field s 0 4, field s 5 2, field s 8 2, field s 11 2, field s 14 2, field s 17 2,
               parse_fraction (drop 19 s)) of
           (Some y, Some m, Some d, Some h, Some mi, Some sec, Some (us, r)) \<Rightarrow>
             if 1 \<le> y \<and> 1 \<le> m \<and> m \<le> 12 \<and> 1 \<le> d \<and> d \<le> days_in_month y m
                \<and> h < 24 \<and> mi < 60 \<and> sec < 60
             then map_option (Datetime (y, m, d, h, mi, sec, us)) (parse_offset r)
             else None
         | _ \<Rightarrow> None)
      else None)"

text \<open>\<open>datetime.isoformat\<close>: the microseconds are left out when they are zero.\<close>

function string_of_pos :: "int \<Rightarrow> string" where
  "string_of_pos i =
     (if i < 10 then [char_of (48 + i)]
      else string_of_pos (i div 10) @ [char_of (48 + i mod 10)])"
  by pat_completeness auto
termination
  by (relation "measure nat") auto

definition pad :: "nat \<Rightarrow> int \<Rightarrow> string" where
  "pad n i = (let s = string_of_pos i in replicate (n - length s) CHR ''0'' @ s)"

definition isoformat_example :: "datetime \<Rightarrow> string" where
  "isoformat_example dt =
     (case dt of Datetime (y, m, d, h, mi, s, us) tz \<Rightarrow>
        pad 4 y @ ''-'' @ pad 2 m @ ''-'' @ pad 2 d @ ''T'' @ pad 2 h @ '':'' @ pad 2 mi @ '':'' @ pad 2 s
        @ (if us = 0 then [] else ''.'' @ pad 6 us)
        @ (case tz of
             None \<Rightarrow> []
           | Some off \<Rightarrow>
               (if off < 0 then ''-'' else ''+'') @ pad 2 (\<bar>off\<bar> div 60) @ '':'' @ pad 2 (\<bar>off\<bar> mod 60)))"

text \<open>
  \<open>json.dump\<close> with \<open>indent=2\<close>, the text in one piece.  In strings the double
  quote, the backslash and the line feed are escaped; other control characters
  do not occur in the examples.
\<close>

definition escape :: "char \<Rightarrow> string" where
  "escape c =
     (if c = CHR 0x22 then [CHR 0x5C, CHR 0x22]
      else if c = CHR 0x5C then [CHR 0x5C, CHR 0x5C]
      else if c = CHR 0x0A then [CHR 0x5C, CHR ''n'']
      else [c])"

definition quoted :: "string \<Rightarrow> string" where
  "quoted s = CHR 0x22 # concat (map escape s) @ [CHR 0x22]"

definition line_break :: "nat \<Rightarrow> string" where
  "line_break level = CHR 0x0A # replicate (2 * level) CHR '' ''"

fun join :: "string \<Rightarrow> string list \<Rightarrow> string" where
  "join sep [] = []"
| "join sep [x] = x"
| "join sep (x # y # ys) = x @ sep @ join sep (y # ys)"

fun dumps :: "nat \<Rightarrow> json \<Rightarrow> string" where
  "dumps level JNull = ''null''"
| "dumps level (JBool b) = (if b then ''true'' else ''false'')"
| "dumps level (JInt i) = (if i < 0 then CHR ''-'' # string_of_pos (- i) else string_of_pos i)"
| "dumps level (JStr s) = quoted s"
| "dumps level (JArr xs) =
     (if xs = [] then ''[]''
      else ''['' @ line_break (level + 1)
           @ join (CHR '','' # line_break (level + 1)) (map (dumps (level + 1)) xs)
           @ line_break level @ '']'')"
| "dumps level (JObj kvs) =
     (if kvs = [] then ''{}''
      else ''{'' @ line_break (level + 1)
           @ join (CHR '','' # line_break (level + 1))
               (map (\<lambda>kv. quoted (fst kv) @ '': '' @ dumps (level + 1) (snd kv)) kvs)
           @ line_break level @ ''}'')"

definition json_dump_example :: "json \<Rightarrow> string list" where
  "json_dump_example v = [dumps 0 v]"

text \<open>
  The text of a value inside an f-string, for the scalars; a timeout is an
  integer in every example.
\<close>

definition format_value_example :: "json \<Rightarrow> string" where
  "format_value_example v =
     (case v of
        JNull \<Rightarrow> ''None''
      | JBool b \<Rightarrow> (if b then ''True'' else ''False'')
      | JInt i \<Rightarrow> (if i < 0 then CHR ''-'' # string_of_pos (- i) else string_of_pos i)
      | JStr s \<Rightarrow> s
      | _ \<Rightarrow> [])"

definition example_lib :: pylib where
  "example_lib =
     \<lparr> croniter_next = croniter_example,
       fromisoformat = fromisoformat_example,
       isoformat = isoformat_example,
       json_dump = json_dump_example,
       format_value = format_value_example \<rparr>"

section \<open>Example configurations\<close>

text \<open>
  A configuration as \<open>_create_default_config\<close> and \<open>enable_mirror\<close> write it: the
  defaults and one entry per mirror with the seven fields the CLI stores.
\<close>

definition example_defaults :: json where
  "example_defaults =
     JObj [(''schedule'', JStr ''0 */6 * * *''), (''timeout'', JInt 600), (''max_concurrent'', JInt 3)]"

definition example_entry :: "json \<Rightarrow> json \<Rightarrow> json \<Rightarrow> (string \<times> json) list" where
  "example_entry enabled schedule last_sync =
     [(''enabled'', enabled), (''schedule'', schedule), (''timeout'', JInt 600),
      (''last_sync'', last_sync), (''last_status'', JNull), (''last_error'', JNull),
      (''next_sync'', JNull)]"

definition example_config :: "(string \<times> json) list \<Rightarrow> json" where
  "example_config mirrors =
     JObj [(''version'', JStr ''1.0''), (''defaults'', example_defaults), (''mirrors'', JObj mirrors)]"

definition example_base :: json where
  "example_base = JObj [(''version'', JStr ''1.0''), (''defaults'', example_defaults)]"

section \<open>Properties of the file operations\<close>

lemma map_of_rename_ignoring:
  "map_of (rename_ignoring src dst fs) =
     (case map_of fs src of
        None \<Rightarrow> map_of fs
      | Some c \<Rightarrow> if src = dst then map_of fs else ((map_of fs)(src := None))(dst \<mapsto> c))"
  by (auto simp: rename_ignoring_def os_rename_def update_conv' delete_conv' split: option.splits)

lemma fold_writes_other:
  "q \<noteq> p \<Longrightarrow> map_of (fold do_step (map (Write q) chunks) fs) p = map_of fs p"
  by (induction chunks arbitrary: fs) (auto simp: update_conv' split: option.splits)

lemma fold_writes_same:
  "map_of fs q = Some c \<Longrightarrow>
   map_of (fold do_step (map (Write q) chunks) fs) q = Some (c @ concat chunks)"
  by (induction chunks arbitrary: fs c) (auto simp: update_conv')

lemma take_map_writes:
  "take k (map (Write q) chunks) = map (Write q) (take k chunks)"
  by (simp add: take_map)

text \<open>
  The manager's save is atomic for a reader of the configuration file: at every
  crash point before the final rename the file is what it was, and after the
  rename it holds the whole text.
\<close>

lemma save_crash_atomic:
  assumes "k \<le> length chunks + 1"
  shows "map_of (crash_after k (save_steps config_file chunks) fs) config_file = map_of fs config_file"
proof (cases k)
  case 0
  then show ?thesis by (simp add: crash_after_def)
next
  case (Suc j)
  with assms have j: "j \<le> length chunks" by simp
  have ne: "config_file @ ''.tmp'' \<noteq> config_file" by simp
  have "crash_after k (save_steps config_file chunks) fs =
        fold do_step (map (Write (config_file @ ''.tmp'')) (take j chunks))
          (AList.update (config_file @ ''.tmp'') [] fs)"
    using j by (simp add: crash_after_def save_steps_def Let_def Suc take_map)
  then show ?thesis
    using ne by (simp add: fold_writes_other update_conv')
qed

lemma save_complete:
  "map_of (fold do_step (save_steps config_file chunks) fs) config_file = Some (concat chunks)"
proof -
  let ?tmp = "config_file @ ''.tmp''"
  have "map_of (fold do_step (map (Write ?tmp) chunks) (AList.update ?tmp [] fs)) ?tmp
        = Some ([] @ concat chunks)"
    by (rule fold_writes_same) (simp add: update_conv')
  then show ?thesis
    by (simp add: save_steps_def Let_def map_of_rename_ignoring)
qed

section \<open>Properties of the log rotation\<close>

lemma small_numbers:
  "string_of_nat 1 = ''1''" "string_of_nat 2 = ''2''" "string_of_nat 3 = ''3''"
  "string_of_nat MAX_ROTATED_LOGS = ''3''" "string_of_nat (Suc (Suc 0)) = ''2''"
  "string_of_nat (Suc 0) = ''1''"
  by code_simp+

lemma backup_names:
  "backup_name lf 1 = lf @ ''.1''" "backup_name lf 2 = lf @ ''.2''"
  "backup_name lf 3 = lf @ ''.3''" "backup_name lf MAX_ROTATED_LOGS = lf @ ''.3''"
  "backup_name lf (Suc (Suc 0)) = lf @ ''.2''" "backup_name lf (Suc 0) = lf @ ''.1''"
  by (simp_all add: backup_name_def small_numbers del: string_of_nat.simps)

lemma cond_remove:
  "\<exists>fs'. (if exists_path fs p then os_remove p fs else Some fs) = Some fs' \<and>
         map_of fs' = (map_of fs)(p := None)"
  by (auto simp: exists_path_def os_remove_def delete_conv' fun_eq_iff)

lemma cond_rename:
  "src \<noteq> dst \<Longrightarrow>
   \<exists>fs'. (if exists_path fs src then os_rename src dst fs else Some fs) = Some fs' \<and>
         map_of fs' = (if map_of fs src = None then map_of fs
                       else (map_of fs)(src := None, dst := map_of fs src))"
  by (auto simp: exists_path_def os_rename_def update_conv' delete_conv' fun_eq_iff)

lemma shift_backups_unfold:
  "shift_backups lf (rev [1..<MAX_ROTATED_LOGS]) fs1 =
     Option.bind (if exists_path fs1 (lf @ ''.2'') then os_rename (lf @ ''.2'') (lf @ ''.3'') fs1 else Some fs1)
      (\<lambda>fs2. if exists_path fs2 (lf @ ''.1'') then os_rename (lf @ ''.1'') (lf @ ''.2'') fs2 else Some fs2)"
proof -
  have r: "rev [1..<MAX_ROTATED_LOGS] = [2, 1]"
    by code_simp
  have n: "(2::nat) + 1 = 3" "(1::nat) + 1 = 2"
    by simp_all
  have b: "\<And>m. Option.bind m Some = m"
    by simp
  show ?thesis
    unfolding r shift_backups.simps Let_def n backup_names b ..
qed

lemma rotate_logs_unfold:
  "rotate_logs lf fs =
     Option.bind (if exists_path fs (lf @ ''.3'') then os_remove (lf @ ''.3'') fs else Some fs)
      (\<lambda>fs1. Option.bind (if exists_path fs1 (lf @ ''.2'') then os_rename (lf @ ''.2'') (lf @ ''.3'') fs1 else Some fs1)
      (\<lambda>fs2. Option.bind (if exists_path fs2 (lf @ ''.1'') then os_rename (lf @ ''.1'') (lf @ ''.2'') fs2 else Some fs2)
      (\<lambda>fs3. if exists_path fs3 lf then os_rename lf (lf @ ''.1'') fs3 else Some fs3)))"
  unfolding rotate_logs_def Let_def shift_backups_unfold backup_names
  by (simp only: Option.bind_assoc)

lemma rotate_logs_result:
  "\<exists>fs'. rotate_logs lf fs = Some fs' \<and>
     map_of fs' = (map_of fs)(lf := None, lf @ ''.1'' := map_of fs lf,
                     lf @ ''.2'' := map_of fs (lf @ ''.1''), lf @ ''.3'' := map_of fs (lf @ ''.2''))"
proof -
  obtain fs1 where 1: "(if exists_path fs (lf @ ''.3'') then os_remove (lf @ ''.3'') fs else Some fs) = Some fs1"
    and m1: "map_of fs1 = (map_of fs)(lf @ ''.3'' := None)"
    using cond_remove by blast
  obtain fs2 where 2: "(if exists_path fs1 (lf @ ''.2'') then os_rename (lf @ ''.2'') (lf @ ''.3'') fs1 else Some fs1) = Some fs2"
    and m2: "map_of fs2 = (if map_of fs1 (lf @ ''.2'') = None then map_of fs1
                           else (map_of fs1)(lf @ ''.2'' := None, lf @ ''.3'' := map_of fs1 (lf @ ''.2'')))"
    using cond_rename [of "lf @ ''.2''" "lf @ ''.3''" fs1] by auto
  obtain fs3 where 3: "(if exists_path fs2 (lf @ ''.1'') then os_rename (lf @ ''.1'') (lf @ ''.2'') fs2 else Some fs2) = Some fs3"
    and m3: "map_of fs3 = (if map_of fs2 (lf @ ''.1'') = None then map_of fs2
                           else (map_of fs2)(lf @ ''.1'' := None, lf @ ''.2'' := map_of fs2 (lf @ ''.1'')))"
    using cond_rename [of "lf @ ''.1''" "lf @ ''.2''" fs2] by auto
  obtain fs4 where 4: "(if exists_path fs3 lf then os_rename lf (lf @ ''.1'') fs3 else Some fs3) = Some fs4"
    and m4: "map_of fs4 = (if map_of fs3 lf = None then map_of fs3
                           else (map_of fs3)(lf := None, lf @ ''.1'' := map_of fs3 lf))"
    using cond_rename [of lf "lf @ ''.1''" fs3] by auto
  have "rotate_logs lf fs = Some fs4"
    by (simp only: rotate_logs_unfold 1 2 3 4 Option.bind.simps)
  moreover have "map_of fs4 = (map_of fs)(lf := None, lf @ ''.1'' := map_of fs lf,
                     lf @ ''.2'' := map_of fs (lf @ ''.1''), lf @ ''.3'' := map_of fs (lf @ ''.2''))"
    unfolding m4 m3 m2 m1 by (auto simp: fun_eq_iff)
  ultimately show ?thesis by blast
qed

text \<open>
  The logger module keeps at most three backups: after a rotation every backup
  holds what the next younger file held, the third backup's old contents are
  gone, and the active file is free for the next append.
\<close>

lemma rotate_logs_keeps_three:
  "\<exists>fs'. rotate_logs lf fs = Some fs' \<and>
     map_of fs' lf = None \<and>
     map_of fs' (lf @ ''.1'') = map_of fs lf \<and>
     map_of fs' (lf @ ''.2'') = map_of fs (lf @ ''.1'') \<and>
     map_of fs' (lf @ ''.3'') = map_of fs (lf @ ''.2'') \<and>
     map_of fs' (lf @ ''.4'') = map_of fs (lf @ ''.4'')"
proof -
  obtain fs' where r: "rotate_logs lf fs = Some fs'"
    and m: "map_of fs' = (map_of fs)(lf := None, lf @ ''.1'' := map_of fs lf,
                     lf @ ''.2'' := map_of fs (lf @ ''.1''), lf @ ''.3'' := map_of fs (lf @ ''.2''))"
    using rotate_logs_result by blast
  show ?thesis
    by (rule exI [of _ fs']) (simp add: r m)
qed

section \<open>Properties of the Python operations\<close>

lemma py_bind_simps [simp]:
  "py_bind (Inl e) f = Inl e" "py_bind (Inr x) f = f x"
  by (simp_all add: py_bind_def)

lemma py_bind_eq_Inr:
  "py_bind m f = Inr y \<longleftrightarrow> (\<exists>x. m = Inr x \<and> f x = Inr y)"
  by (cases m) simp_all

lemma py_get_JObj [simp]:
  "py_get (JObj kvs) k dflt = Inr (case map_of kvs k of None \<Rightarrow> dflt | Some v \<Rightarrow> v)"
  by (simp add: py_get_def)

lemma py_getitem_JObj [simp]:
  "py_getitem (JObj kvs) k = (case map_of kvs k of None \<Rightarrow> Inl KeyError | Some v \<Rightarrow> Inr v)"
  by (simp add: py_getitem_def)

lemma py_getitem_Inr:
  "py_getitem d k = Inr v \<longleftrightarrow> (\<exists>kvs. d = JObj kvs \<and> map_of kvs k = Some v)"
  by (cases d) (auto simp: py_getitem_def split: option.splits)

lemma py_get_Inr:
  "py_get d k dflt = Inr v \<longleftrightarrow>
     (\<exists>kvs. d = JObj kvs \<and> v = (case map_of kvs k of None \<Rightarrow> dflt | Some w \<Rightarrow> w))"
  by (cases d) (auto simp: py_get_def)

lemma py_items_Inr: "py_items d = Inr kvs \<longleftrightarrow> d = JObj kvs"
  by (cases d) (auto simp: py_items_def)

lemma py_items_JObj [simp]: "py_items (JObj kvs) = Inr kvs"
  by (simp add: py_items_def)

lemma py_setitem_JObj [simp]: "py_setitem (JObj kvs) k v = Inr (JObj (AList.update k v kvs))"
  by (simp add: py_setitem_def)

lemma py_contains_JObj [simp]: "py_contains k (JObj kvs) = Inr (map_of kvs k \<noteq> None)"
  by (simp add: py_contains_def)

lemma for_each_Cons_Inr:
  "for_each f (x # xs) = Inr vs \<longleftrightarrow>
     (\<exists>v vs'. f x = Inr v \<and> for_each f xs = Inr vs' \<and> vs = v # vs')"
  by (auto split: sum.splits)

lemma for_each_Inr:
  "for_each f xs = Inr vs \<longleftrightarrow> list_all2 (\<lambda>x v. f x = Inr v) xs vs"
  by (induction xs arbitrary: vs)
     (auto simp: for_each_Cons_Inr list_all2_Cons1 simp del: for_each.simps(2))

lemma for_each_member:
  "for_each f xs = Inr vs \<Longrightarrow> v \<in> set vs \<Longrightarrow> \<exists>x\<in>set xs. f x = Inr v"
  by (induction xs arbitrary: vs)
     (auto simp: for_each_Cons_Inr simp del: for_each.simps(2))

lemma for_each_covers:
  "for_each f xs = Inr vs \<Longrightarrow> x \<in> set xs \<Longrightarrow> \<exists>v\<in>set vs. f x = Inr v"
  by (induction xs arbitrary: vs)
     (auto simp: for_each_Cons_Inr simp del: for_each.simps(2))

lemma set_selected: "set (selected vs) = {d. Is_due d \<in> set vs}"
  by (induction vs rule: selected.induct) auto

lemma sort_by_string_key_Inr:
  "sort_by_string_key f xs = Inr ys \<Longrightarrow> ys = sort_key (\<lambda>x. key_string (f x)) xs"
  by (auto simp: sort_by_string_key_def py_bind_eq_Inr split: if_splits)

lemma sort_by_string_key_set:
  "sort_by_string_key f xs = Inr ys \<Longrightarrow> set ys = set xs"
  by (auto dest!: sort_by_string_key_Inr)

section \<open>Properties of the due lists\<close>

lemma for_each_pure: "for_each (\<lambda>x. Inr (g x)) xs = Inr (map g xs)"
  by (induction xs) simp_all

lemma daemon_try_Some:
  "daemon_try lib now config n m schedule ls = Inr (Some d) \<Longrightarrow>
     due_name d = n \<and> due_last_sync d = ls \<and> (\<exists>a. parse_last_sync lib ls = Inr a)"
  by (auto simp: daemon_try_def py_bind_eq_Inr split: if_splits)

lemma parse_last_sync_key:
  "parse_last_sync lib ls = Inr a \<Longrightarrow> is_JStr (py_or ls (JStr []))"
  by (auto simp: parse_last_sync_def py_or_def split: if_splits json.splits)

lemma daemon_entry_Is_due_iff:
  "daemon_entry lib now config (n, m) = Inr (Is_due d) \<longleftrightarrow>
     (\<exists>enabled dflt schedule ls.
        py_get m ''enabled'' (JBool True) = Inr enabled \<and> truthy enabled \<and>
        default_of config ''schedule'' = Inr dflt \<and>
        py_get m ''schedule'' dflt = Inr schedule \<and>
        py_get m ''last_sync'' JNull = Inr ls \<and>
        daemon_try lib now config n m schedule ls = Inr (Some d))"
proof -
  have c: "(case r of Inl e \<Rightarrow> Errored n e | Inr None \<Rightarrow> Not_due | Inr (Some d') \<Rightarrow> Is_due d') = Is_due d
           \<longleftrightarrow> r = Inr (Some d)" for r :: "py_exn + due_mirror option"
    by (cases r) (auto split: option.splits)
  show ?thesis
    by (cases "py_get m ''enabled'' (JBool True)")
       (auto simp: daemon_entry_def py_bind_eq_Inr c)
qed

lemma daemon_entry_Is_due:
  assumes "daemon_entry lib now config (n, m) = Inr (Is_due d)"
  shows "due_name d = n"
    and "is_JStr (py_or (due_last_sync d) (JStr []))"
    and "\<exists>kvs. m = JObj kvs \<and> truthy (case map_of kvs ''enabled'' of None \<Rightarrow> JBool True | Some v \<Rightarrow> v)"
proof -
  from assms obtain enabled schedule ls
    where e: "py_get m ''enabled'' (JBool True) = Inr enabled" "truthy enabled"
      and t: "daemon_try lib now config n m schedule ls = Inr (Some d)"
    unfolding daemon_entry_Is_due_iff by blast
  from daemon_try_Some [OF t] show "due_name d = n"
    by simp
  from daemon_try_Some [OF t] show "is_JStr (py_or (due_last_sync d) (JStr []))"
    by (auto dest: parse_last_sync_key)
  from e show "\<exists>kvs. m = JObj kvs \<and> truthy (case map_of kvs ''enabled'' of None \<Rightarrow> JBool True | Some v \<Rightarrow> v)"
    by (auto simp: py_get_Inr)
qed

lemma daemon_sort_total:
  assumes "for_each (daemon_entry lib now config) items = Inr vs"
  shows "sort_by_string_key (\<lambda>x. Inr (py_or (due_last_sync x) (JStr []))) (selected vs)
         = Inr (sort_key (\<lambda>x. key_string (Inr (py_or (due_last_sync x) (JStr [])))) (selected vs))"
proof -
  have k: "is_JStr (py_or (due_last_sync d) (JStr []))" if "d \<in> set (selected vs)" for d
  proof -
    from that have "Is_due d \<in> set vs" by (simp add: set_selected)
    with assms obtain item where "daemon_entry lib now config item = Inr (Is_due d)"
      by (blast dest: for_each_member)
    then show ?thesis
      by (cases item) (auto dest: daemon_entry_Is_due(2))
  qed
  have "list_all is_JStr (map (\<lambda>x. py_or (due_last_sync x) (JStr [])) (selected vs))"
    using k by (simp add: list_all_iff)
  then show ?thesis
    by (simp add: sort_by_string_key_def for_each_pure)
qed

lemma daemon_due_names_char:
  assumes "py_get config ''mirrors'' (JObj []) = Inr (JObj items)"
    and "for_each (daemon_entry lib now config) items = Inr vs"
  shows "set (daemon_due_names lib now config)
         = {n. \<exists>m d. (n, m) \<in> set items \<and> daemon_entry lib now config (n, m) = Inr (Is_due d)}"
proof -
  have "daemon_due_names lib now config
        = map due_name (sort_key (\<lambda>x. key_string (Inr (py_or (due_last_sync x) (JStr [])))) (selected vs))"
    using assms by (simp add: daemon_due_names_def daemon_get_due_mirrors_def daemon_sort_total)
  then have "set (daemon_due_names lib now config) = due_name ` {d. Is_due d \<in> set vs}"
    by (simp add: set_selected)
  also have "\<dots> = {n. \<exists>m d. (n, m) \<in> set items \<and> daemon_entry lib now config (n, m) = Inr (Is_due d)}"
  proof (intro set_eqI iffI)
    fix n assume "n \<in> due_name ` {d. Is_due d \<in> set vs}"
    then obtain d where d: "Is_due d \<in> set vs" "n = due_name d" by auto
    with assms(2) obtain item where i: "item \<in> set items" "daemon_entry lib now config item = Inr (Is_due d)"
      by (blast dest: for_each_member)
    obtain n' m where "item = (n', m)" by (cases item)
    with i d show "n \<in> {n. \<exists>m d. (n, m) \<in> set items \<and> daemon_entry lib now config (n, m) = Inr (Is_due d)}"
      by (auto dest: daemon_entry_Is_due(1))
  next
    fix n assume "n \<in> {n. \<exists>m d. (n, m) \<in> set items \<and> daemon_entry lib now config (n, m) = Inr (Is_due d)}"
    then obtain m d where i: "(n, m) \<in> set items" "daemon_entry lib now config (n, m) = Inr (Is_due d)"
      by auto
    with assms(2) have "Is_due d \<in> set vs"
      by (auto dest: for_each_covers)
    moreover have "due_name d = n"
      using i(2) by (rule daemon_entry_Is_due(1))
    ultimately show "n \<in> due_name ` {d. Is_due d \<in> set vs}"
      by force
  qed
  finally show ?thesis .
qed

lemma daemon_due_names_member:
  assumes "n \<in> set (daemon_due_names lib now config)"
  shows "\<exists>items m d. py_get config ''mirrors'' (JObj []) = Inr (JObj items) \<and> (n, m) \<in> set items
           \<and> daemon_entry lib now config (n, m) = Inr (Is_due d)"
proof -
  from assms obtain r where "daemon_get_due_mirrors lib now config = Inr r"
    by (cases "daemon_get_due_mirrors lib now config") (auto simp: daemon_due_names_def)
  then obtain mirrors items vs where
    1: "py_get config ''mirrors'' (JObj []) = Inr mirrors" and 2: "py_items mirrors = Inr items"
    and 3: "for_each (daemon_entry lib now config) items = Inr vs"
    unfolding daemon_get_due_mirrors_def py_bind_eq_Inr by blast
  from 2 have "mirrors = JObj items" by (simp add: py_items_Inr)
  with 1 3 assms show ?thesis
    by (auto simp: daemon_due_names_char)
qed

lemma manager_entry_Is_due_iff:
  "manager_entry lib now (n, m) = Inr (Is_due x) \<longleftrightarrow>
     x = (n, m) \<and>
     (\<exists>enabled. py_get m ''enabled'' (JBool False) = Inr enabled \<and> truthy enabled) \<and>
     (manager_try lib now m = Inr True \<or>
      (\<exists>e. manager_try lib now m = Inl e) \<and> py_get m ''last_sync'' JNull = Inr JNull)"
proof (cases "py_get m ''enabled'' (JBool False)")
  case (Inl e)
  then show ?thesis by (simp add: manager_entry_def)
next
  case (Inr enabled)
  show ?thesis
  proof (cases "manager_try lib now m")
    case (Inl e)
    with Inr show ?thesis
      by (cases "py_get m ''last_sync'' JNull") (auto simp: manager_entry_def)
  next
    case r: (Inr due)
    with Inr show ?thesis
      by (auto simp: manager_entry_def)
  qed
qed

lemma manager_try_key:
  assumes "manager_try lib now m = Inr b"
  shows "\<exists>v. py_get m ''last_sync'' JNull = Inr v \<and> is_JStr (py_or v (JStr []))"
proof -
  from assms obtain stored start where g: "py_get m ''last_sync'' JNull = Inr stored"
    and st: "(if truthy stored then
                py_bind (py_getitem m ''last_sync'') (\<lambda>v.
                  case v of
                    JStr s \<Rightarrow> (case fromisoformat lib s of None \<Rightarrow> Inl ValueError | Some d \<Rightarrow> Inr d)
                  | _ \<Rightarrow> Inl TypeError)
              else Inr (Datetime now None)) = Inr start"
    unfolding manager_try_def py_bind_eq_Inr by blast
  have "is_JStr (py_or stored (JStr []))"
  proof (cases "truthy stored")
    case False
    then show ?thesis by (simp add: py_or_def)
  next
    case True
    with st obtain v where v: "py_getitem m ''last_sync'' = Inr v"
      and c: "(case v of
                 JStr s \<Rightarrow> (case fromisoformat lib s of None \<Rightarrow> Inl ValueError | Some d \<Rightarrow> Inr d)
               | _ \<Rightarrow> Inl TypeError) = Inr start"
      by (auto simp: py_bind_eq_Inr)
    from c have "is_JStr v" by (cases v) simp_all
    moreover from v g have "stored = v" by (auto simp: py_getitem_Inr)
    ultimately show ?thesis using True by (simp add: py_or_def)
  qed
  with g show ?thesis by blast
qed

lemma manager_entry_key:
  assumes "manager_entry lib now (n, m) = Inr (Is_due x)"
  shows "\<exists>v. py_get (snd x) ''last_sync'' JNull = Inr v \<and> is_JStr (py_or v (JStr []))"
proof -
  from assms have x: "x = (n, m)"
    and c: "manager_try lib now m = Inr True \<or>
            (\<exists>e. manager_try lib now m = Inl e) \<and> py_get m ''last_sync'' JNull = Inr JNull"
    unfolding manager_entry_Is_due_iff by blast+
  from c show ?thesis
  proof
    assume "manager_try lib now m = Inr True"
    then show ?thesis unfolding x snd_conv by (rule manager_try_key)
  next
    assume "(\<exists>e. manager_try lib now m = Inl e) \<and> py_get m ''last_sync'' JNull = Inr JNull"
    then show ?thesis unfolding x by (simp add: py_or_def)
  qed
qed

lemma for_each_all_Inr:
  "(\<And>x. x \<in> set xs \<Longrightarrow> \<exists>v. f x = Inr v \<and> P v) \<Longrightarrow> \<exists>vs. for_each f xs = Inr vs \<and> list_all P vs"
  by (induction xs) (auto, fastforce)

lemma manager_sort_total:
  assumes "for_each (manager_entry lib now) items = Inr vs"
  shows "sort_by_string_key
           (\<lambda>x. py_bind (py_get (snd x) ''last_sync'' JNull) (\<lambda>v. Inr (py_or v (JStr [])))) (selected vs)
         = Inr (sort_key (\<lambda>x. key_string (py_bind (py_get (snd x) ''last_sync'' JNull) (\<lambda>v. Inr (py_or v (JStr [])))))
                  (selected vs))"
proof -
  let ?f = "\<lambda>x. py_bind (py_get (snd x) ''last_sync'' JNull) (\<lambda>v. Inr (py_or v (JStr [])))"
  have k: "\<exists>k. ?f x = Inr k \<and> is_JStr k" if "x \<in> set (selected vs)" for x
  proof -
    from that have "Is_due x \<in> set vs" by (simp add: set_selected)
    with assms obtain item where i: "manager_entry lib now item = Inr (Is_due x)"
      by (blast dest: for_each_member)
    obtain n m where "item = (n, m)" by (cases item)
    with i obtain v where "py_get (snd x) ''last_sync'' JNull = Inr v" "is_JStr (py_or v (JStr []))"
      using manager_entry_key by blast
    then show ?thesis by simp
  qed
  have "\<exists>ks. for_each ?f (selected vs) = Inr ks \<and> list_all is_JStr ks"
    by (rule for_each_all_Inr) (rule k)
  then obtain ks where "for_each ?f (selected vs) = Inr ks" "list_all is_JStr ks"
    by blast
  then show ?thesis
    by (simp add: sort_by_string_key_def)
qed

lemma manager_due_names_char:
  assumes "py_getitem config ''mirrors'' = Inr (JObj items)"
    and "for_each (manager_entry lib now) items = Inr vs"
  shows "set (manager_due_names lib now config)
         = {n. \<exists>m. (n, m) \<in> set items \<and> manager_entry lib now (n, m) = Inr (Is_due (n, m))}"
proof -
  have "manager_due_names lib now config
        = map fst (sort_key (\<lambda>x. key_string (py_bind (py_get (snd x) ''last_sync'' JNull) (\<lambda>v. Inr (py_or v (JStr [])))))
                  (selected vs))"
    using assms by (simp add: manager_due_names_def manager_get_due_mirrors_def manager_sort_total)
  then have "set (manager_due_names lib now config) = fst ` {d. Is_due d \<in> set vs}"
    by (simp add: set_selected)
  also have "\<dots> = {n. \<exists>m. (n, m) \<in> set items \<and> manager_entry lib now (n, m) = Inr (Is_due (n, m))}"
  proof (intro set_eqI iffI)
    fix n assume "n \<in> fst ` {d. Is_due d \<in> set vs}"
    then obtain d where d: "Is_due d \<in> set vs" "n = fst d" by auto
    with assms(2) obtain item where i: "item \<in> set items" "manager_entry lib now item = Inr (Is_due d)"
      by (blast dest: for_each_member)
    obtain n' m where "item = (n', m)" by (cases item)
    with i d show "n \<in> {n. \<exists>m. (n, m) \<in> set items \<and> manager_entry lib now (n, m) = Inr (Is_due (n, m))}"
      by (auto simp: manager_entry_Is_due_iff)
  next
    fix n assume "n \<in> {n. \<exists>m. (n, m) \<in> set items \<and> manager_entry lib now (n, m) = Inr (Is_due (n, m))}"
    then obtain m where i: "(n, m) \<in> set items" "manager_entry lib now (n, m) = Inr (Is_due (n, m))"
      by auto
    with assms(2) have "Is_due (n, m) \<in> set vs"
      by (auto dest: for_each_covers)
    then show "n \<in> fst ` {d. Is_due d \<in> set vs}"
      by force
  qed
  finally show ?thesis .
qed

lemma manager_due_names_member:
  assumes "n \<in> set (manager_due_names lib now config)"
  shows "\<exists>items m. py_getitem config ''mirrors'' = Inr (JObj items) \<and> (n, m) \<in> set items
           \<and> manager_entry lib now (n, m) = Inr (Is_due (n, m))"
proof -
  from assms obtain r where "manager_get_due_mirrors lib now config = Inr r"
    by (cases "manager_get_due_mirrors lib now config") (auto simp: manager_due_names_def)
  then obtain mirrors items vs where
    1: "py_getitem config ''mirrors'' = Inr mirrors" and 2: "py_items mirrors = Inr items"
    and 3: "for_each (manager_entry lib now) items = Inr vs"
    unfolding manager_get_due_mirrors_def py_bind_eq_Inr by blast
  from 2 have "mirrors = JObj items" by (simp add: py_items_Inr)
  with 1 3 assms show ?thesis
    by (auto simp: manager_due_names_char)
qed

lemma manager_key_eq:
  "key_string (py_bind (py_get m ''last_sync'' JNull) (\<lambda>v. Inr (py_or v (JStr []))))
   = last_sync_key (stored_last_sync m)"
  by (cases "py_get m ''last_sync'' JNull")
     (simp_all add: last_sync_key_def stored_last_sync_def key_string_def py_or_def)



lemma last_sync_key_falsy: "\<not> truthy v \<Longrightarrow> last_sync_key v = []"
  by (simp add: last_sync_key_def py_or_def key_string_def)


lemma sorted_empty_keys_first:
  fixes key :: "'a \<Rightarrow> string"
  assumes "sorted (map key xs)" and "j < length xs" and "key (xs ! j) = []" and "i \<le> j"
  shows "key (xs ! i) = []"
proof -
  have "map key xs ! i \<le> map key xs ! j"
    using assms(1,4,2) by (intro sorted_nth_mono) simp_all
  with assms(2,4) have "key (xs ! i) \<le> key (xs ! j)"
    by simp
  with assms(3) show ?thesis
    by simp
qed


lemma manager_due_names_list: "manager_due_names lib now config = map fst (manager_due_list lib now config)"
  by (simp add: manager_due_names_def manager_due_list_def split: sum.splits)






lemma manager_try_never_synced:
  assumes later: "\<And>s a b. croniter_next lib s a = Some b \<Longrightarrow> tzinfo b = tzinfo a \<and> wall a < wall b"
    and ns: "\<not> truthy (stored_last_sync (JObj flds))"
    and sch: "map_of flds ''schedule'' = Some schedule"
    and p: "croniter_next lib schedule (Datetime now None) \<noteq> None"
  shows "manager_try lib now (JObj flds) = Inr False"
proof -
  from p obtain nx where nx: "croniter_next lib schedule (Datetime now None) = Some nx"
    by auto
  from later [OF nx] have "tzinfo nx = None" "now < wall nx"
    by simp_all
  then have "le_now nx now = Inr False"
    by (simp add: le_now_def not_le)
  moreover from ns have "\<not> truthy (case map_of flds ''last_sync'' of None \<Rightarrow> JNull | Some v \<Rightarrow> v)"
    by (simp add: stored_last_sync_def)
  ultimately show ?thesis
    using sch nx by (simp add: manager_try_def cron_next_def)
qed

lemma manager_never_synced_not_due:
  assumes later: "\<And>s a b. croniter_next lib s a = Some b \<Longrightarrow> tzinfo b = tzinfo a \<and> wall a < wall b"
    and cfg: "py_getitem config ''mirrors'' = Inr (JObj ms)" "distinct (map fst ms)"
             "map_of ms n = Some (JObj flds)"
    and ns: "\<not> truthy (stored_last_sync (JObj flds))"
    and sch: "map_of flds ''schedule'' = Some schedule"
             "croniter_next lib schedule (Datetime now None) \<noteq> None"
  shows "n \<notin> set (manager_due_names lib now config)"
proof
  assume "n \<in> set (manager_due_names lib now config)"
  then obtain items m where g: "py_getitem config ''mirrors'' = Inr (JObj items)"
    and i: "(n, m) \<in> set items" and e: "manager_entry lib now (n, m) = Inr (Is_due (n, m))"
    by (blast dest: manager_due_names_member)
  from g cfg(1) have "items = ms" by simp
  with i cfg(2,3) have m: "m = JObj flds"
    by (auto dest: map_of_is_SomeI)
  have "manager_try lib now (JObj flds) = Inr False"
    using later ns sch by (rule manager_try_never_synced)
  with e m show False
    by (simp add: manager_entry_Is_due_iff)
qed

lemma daemon_never_synced_due:
  assumes cfg: "py_getitem config ''mirrors'' = Inr (JObj ms)"
    and ok: "for_each (daemon_entry lib now config) ms = Inr vs"
    and e: "(n, JObj flds) \<in> set ms"
    and en: "truthy (case map_of flds ''enabled'' of None \<Rightarrow> JBool True | Some v \<Rightarrow> v)"
    and ns: "\<not> truthy (stored_last_sync (JObj flds))"
    and d: "default_of config ''schedule'' = Inr dflt" "default_of config ''timeout'' = Inr dt"
    and fire: "croniter_next lib (case map_of flds ''schedule'' of None \<Rightarrow> dflt | Some s \<Rightarrow> s) never_synced = Some nx"
              "tzinfo nx = None" "wall nx \<le> now"
  shows "n \<in> set (daemon_due_names lib now config)"
proof -
  from cfg have g: "py_get config ''mirrors'' (JObj []) = Inr (JObj ms)"
    by (auto simp: py_getitem_Inr)
  from ns have f: "\<not> truthy (case map_of flds ''last_sync'' of None \<Rightarrow> JNull | Some v \<Rightarrow> v)"
    by (simp add: stored_last_sync_def)
  have "\<exists>d. daemon_entry lib now config (n, JObj flds) = Inr (Is_due d)"
    using en f d fire
    by (simp add: daemon_entry_def daemon_try_def parse_last_sync_def cron_next_def le_now_def)
  with e show ?thesis
    unfolding daemon_due_names_char [OF g ok] by blast
qed

section \<open>Properties of the configuration changes\<close>

lemma store_mirror_JObj:
  "map_of kvs ''mirrors'' = Some (JObj ms) \<Longrightarrow>
   store_mirror (JObj kvs) repo_name mirror
     = JObj (AList.update ''mirrors'' (JObj (AList.update repo_name mirror ms)) kvs)"
  by (simp add: store_mirror_def)

lemma save_result: "\<exists>ok fs'. save config_file chunks fault fs = (ok, fs')"
  by (simp add: save_def Let_def)

lemma disable_mirror_present:
  assumes "map_of kvs ''mirrors'' = Some (JObj ms)" and "map_of ms repo_name = Some (JObj flds)"
  shows "\<exists>ok fs'. disable_mirror lib config_file fault repo_name (JObj kvs, fs)
           = (Inr (JBool ok),
              JObj (AList.update ''mirrors''
                     (JObj (AList.update repo_name (JObj (AList.update ''enabled'' (JBool False) flds)) ms)) kvs),
              fs')"
proof -
  obtain ok fs' where
    "save config_file (json_dump lib (JObj (AList.update ''mirrors''
        (JObj (AList.update repo_name (JObj (AList.update ''enabled'' (JBool False) flds)) ms)) kvs))) fault fs
     = (ok, fs')"
    using save_result by blast
  with assms show ?thesis
    by (simp add: disable_mirror_def store_mirror_JObj Let_def)
qed

lemma disabled_not_due_daemon:
  assumes "py_getitem config ''mirrors'' = Inr (JObj ms)" and "distinct (map fst ms)"
    and "map_of ms n = Some (JObj flds)" and "map_of flds ''enabled'' = Some v" and "\<not> truthy v"
  shows "n \<notin> set (daemon_due_names lib now config)"
proof
  assume "n \<in> set (daemon_due_names lib now config)"
  then obtain items m d where g: "py_get config ''mirrors'' (JObj []) = Inr (JObj items)"
    and i: "(n, m) \<in> set items" and e: "daemon_entry lib now config (n, m) = Inr (Is_due d)"
    by (blast dest: daemon_due_names_member)
  from g assms(1) have "items = ms"
    by (auto simp: py_getitem_Inr)
  with i assms(2,3) have "m = JObj flds"
    by (auto dest: map_of_is_SomeI)
  with daemon_entry_Is_due(3) [OF e] assms(4,5) show False
    by simp
qed

lemma disabled_not_due_manager:
  assumes "py_getitem config ''mirrors'' = Inr (JObj ms)" and "distinct (map fst ms)"
    and "map_of ms n = Some (JObj flds)" and "map_of flds ''enabled'' = Some v" and "\<not> truthy v"
  shows "n \<notin> set (manager_due_names lib now config)"
proof
  assume "n \<in> set (manager_due_names lib now config)"
  then obtain items m where g: "py_getitem config ''mirrors'' = Inr (JObj items)"
    and i: "(n, m) \<in> set items" and e: "manager_entry lib now (n, m) = Inr (Is_due (n, m))"
    by (blast dest: manager_due_names_member)
  from g assms(1) have "items = ms"
    by simp
  with i assms(2,3) have "m = JObj flds"
    by (auto dest: map_of_is_SomeI)
  with e assms(4,5) show False
    by (auto simp: manager_entry_Is_due_iff)
qed

lemma daemon_returns_None:
  "fst (daemon_update_sync_status lib t1 t2 fault name status error st) = Inr r \<Longrightarrow> r = JNull"
  by (auto simp: daemon_update_sync_status_def Let_def split: prod.splits sum.splits bool.splits option.splits)






section \<open>An entry whose schedule cannot be evaluated\<close>

lemma with_mirrors_JObj [simp]:
  "with_mirrors (JObj kvs) items = JObj (AList.update ''mirrors'' (JObj items) kvs)"
  by (simp add: with_mirrors_def)

lemma default_of_with_mirrors [simp]:
  "default_of (with_mirrors (JObj kvs) items) k = default_of (JObj kvs) k"
  by (simp add: default_of_def update_conv')

lemma daemon_try_with_mirrors [simp]:
  "daemon_try lib now (with_mirrors (JObj kvs) items) = daemon_try lib now (JObj kvs)"
  by (intro ext) (simp add: daemon_try_def del: with_mirrors_JObj cong: if_cong)

lemma daemon_entry_with_mirrors [simp]:
  "daemon_entry lib now (with_mirrors (JObj kvs) items) = daemon_entry lib now (JObj kvs)"
  by (rule ext) (simp add: daemon_entry_def del: with_mirrors_JObj cong: if_cong split: prod.splits)

lemma mirrors_of_with_mirrors [simp]:
  "py_get (with_mirrors (JObj kvs) items) ''mirrors'' dflt = Inr (JObj items)"
  "py_getitem (with_mirrors (JObj kvs) items) ''mirrors'' = Inr (JObj items)"
  by (simp_all add: update_conv')

lemma for_each_append_Inr:
  "for_each f (xs @ ys) = Inr vs \<longleftrightarrow>
     (\<exists>vs1 vs2. for_each f xs = Inr vs1 \<and> for_each f ys = Inr vs2 \<and> vs = vs1 @ vs2)"
  by (induction xs arbitrary: vs)
     (auto simp: for_each_Cons_Inr simp del: for_each.simps(2))

lemma selected_append [simp]: "selected (vs @ ws) = selected vs @ selected ws"
  by (induction vs rule: selected.induct) simp_all

lemma logged_append [simp]: "logged (vs @ ws) = logged vs @ logged ws"
  by (induction vs rule: logged.induct) simp_all

lemma set_logged: "set (logged vs) = {(r, e). Errored r e \<in> set vs}"
  by (induction vs rule: logged.induct) auto

lemma daemon_entry_shape:
  assumes "daemon_entry lib now config (n, m) = Inr v"
  shows "v = Skipped \<or>
         (\<exists>enabled dflt schedule ls.
            py_get m ''enabled'' (JBool True) = Inr enabled \<and> truthy enabled \<and>
            default_of config ''schedule'' = Inr dflt \<and>
            py_get m ''schedule'' dflt = Inr schedule \<and>
            py_get m ''last_sync'' JNull = Inr ls \<and>
            v = (case daemon_try lib now config n m schedule ls of
                   Inl e \<Rightarrow> Errored n e
                 | Inr None \<Rightarrow> Not_due
                 | Inr (Some d) \<Rightarrow> Is_due d))"
  using assms by (auto simp: daemon_entry_def py_bind_eq_Inr split: if_splits)

lemma daemon_entry_Errored:
  assumes "daemon_entry lib now config (n, m) = Inr (Errored r e)"
  shows "r = n"
proof -
  from daemon_entry_shape [OF assms] obtain schedule ls where
    v: "Errored r e = (case daemon_try lib now config n m schedule ls of
                   Inl e \<Rightarrow> Errored n e
                 | Inr None \<Rightarrow> Not_due
                 | Inr (Some d) \<Rightarrow> Is_due d)"
    by auto
  then show ?thesis
    by (cases "daemon_try lib now config n m schedule ls") (auto split: option.splits)
qed

lemma daemon_logged_names:
  assumes "for_each (daemon_entry lib now config) items = Inr vs" and "(r, e) \<in> set (logged vs)"
  shows "r \<in> fst ` set items"
proof -
  from assms(2) have "Errored r e \<in> set vs" by (simp add: set_logged)
  with assms(1) obtain item where i: "item \<in> set items" "daemon_entry lib now config item = Inr (Errored r e)"
    by (blast dest: for_each_member)
  obtain n m where nm: "item = (n, m)" by (cases item)
  with i(2) have "r = n" by (auto dest: daemon_entry_Errored)
  with i(1) nm show ?thesis by force
qed

lemma daemon_try_bad_schedule:
  assumes "\<forall>a. croniter_next lib schedule a = None"
  shows "\<exists>e. daemon_try lib now config n m schedule ls = Inl e"
  using assms
  by (cases "parse_last_sync lib ls") (simp_all add: daemon_try_def cron_next_def)

lemma daemon_entry_bad_schedule:
  assumes "\<forall>a. croniter_next lib schedule a = None" and "map_of flds ''schedule'' = Some schedule"
    and "daemon_entry lib now config (n, JObj flds) = Inr v"
  shows "v = Skipped \<or> (\<exists>e. v = Errored n e)"
    and "truthy (case map_of flds ''enabled'' of None \<Rightarrow> JBool True | Some v \<Rightarrow> v) \<Longrightarrow> \<exists>e. v = Errored n e"
proof -
  from daemon_entry_shape [OF assms(3)] assms(2)
  have "v = Skipped \<or> (\<exists>ls. v = (case daemon_try lib now config n (JObj flds) schedule ls of
                   Inl e \<Rightarrow> Errored n e
                 | Inr None \<Rightarrow> Not_due
                 | Inr (Some d) \<Rightarrow> Is_due d))"
    by auto
  then show 1: "v = Skipped \<or> (\<exists>e. v = Errored n e)"
  proof
    assume "v = Skipped" then show ?thesis by simp
  next
    assume "\<exists>ls. v = (case daemon_try lib now config n (JObj flds) schedule ls of
                   Inl e \<Rightarrow> Errored n e
                 | Inr None \<Rightarrow> Not_due
                 | Inr (Some d) \<Rightarrow> Is_due d)"
    then obtain ls where v: "v = (case daemon_try lib now config n (JObj flds) schedule ls of
                   Inl e \<Rightarrow> Errored n e
                 | Inr None \<Rightarrow> Not_due
                 | Inr (Some d) \<Rightarrow> Is_due d)" ..
    from daemon_try_bad_schedule [OF assms(1)] obtain e where
      "daemon_try lib now config n (JObj flds) schedule ls = Inl e" by blast
    with v show ?thesis by simp
  qed
  assume "truthy (case map_of flds ''enabled'' of None \<Rightarrow> JBool True | Some v \<Rightarrow> v)"
  moreover have "(case r of Inl e \<Rightarrow> Errored n e | Inr None \<Rightarrow> Not_due | Inr (Some d) \<Rightarrow> Is_due d) \<noteq> Skipped"
    for r :: "py_exn + due_mirror option"
    by (cases r) (auto split: option.splits)
  ultimately have "v \<noteq> Skipped"
    using assms(3) by (auto simp: daemon_entry_def py_bind_eq_Inr)
  with 1 show "\<exists>e. v = Errored n e" by simp
qed

lemma filter_logged_other:
  assumes "for_each (daemon_entry lib now config) items = Inr vs" and "n \<notin> fst ` set items"
  shows "filter (\<lambda>l. fst l \<noteq> n) (logged vs) = logged vs"
proof -
  have "fst l \<noteq> n" if "l \<in> set (logged vs)" for l
  proof -
    obtain r e where "l = (r, e)" by (cases l)
    with that assms show ?thesis
      by (auto dest: daemon_logged_names)
  qed
  then show ?thesis
    by (simp add: filter_id_conv)
qed

lemma daemon_selected_names:
  assumes "for_each (daemon_entry lib now config) items = Inr vs" and "d \<in> set (selected vs)"
  shows "due_name d \<in> fst ` set items"
proof -
  from assms(2) have "Is_due d \<in> set vs" by (simp add: set_selected)
  with assms(1) obtain item where i: "item \<in> set items" "daemon_entry lib now config item = Inr (Is_due d)"
    by (blast dest: for_each_member)
  obtain n m where nm: "item = (n, m)" by (cases item)
  with i(2) have "due_name d = n" by (auto dest: daemon_entry_Is_due(1))
  with i(1) nm show ?thesis by force
qed

lemma daemon_bad_entry:
  assumes bad: "\<forall>a. croniter_next lib schedule a = None"
    and sch: "map_of flds ''schedule'' = Some schedule"
    and dist: "distinct (map fst (ms1 @ (n, JObj flds) # ms2))"
    and r: "daemon_get_due_mirrors lib now (with_mirrors (JObj kvs) (ms1 @ (n, JObj flds) # ms2)) = Inr (due, errs)"
  shows "daemon_get_due_mirrors lib now (with_mirrors (JObj kvs) (ms1 @ ms2))
           = Inr (due, filter (\<lambda>l. fst l \<noteq> n) errs)"
    and "n \<notin> due_name ` set due"
    and "truthy (case map_of flds ''enabled'' of None \<Rightarrow> JBool True | Some v \<Rightarrow> v) \<Longrightarrow> \<exists>e. (n, e) \<in> set errs"
proof -
  let ?f = "daemon_entry lib now (JObj kvs)"
  let ?key = "\<lambda>x. Inr (py_or (due_last_sync x) (JStr [])) :: py_exn + json"
  from r obtain vs where f: "for_each ?f (ms1 @ (n, JObj flds) # ms2) = Inr vs"
    and s: "sort_by_string_key ?key (selected vs) = Inr due" and l: "errs = logged vs"
    by (auto simp: daemon_get_due_mirrors_def py_bind_eq_Inr simp del: with_mirrors_JObj)
  from f obtain vs1 vB vs2 where 1: "for_each ?f ms1 = Inr vs1" and B: "?f (n, JObj flds) = Inr vB"
    and 2: "for_each ?f ms2 = Inr vs2" and vs: "vs = vs1 @ vB # vs2"
    by (auto simp: for_each_append_Inr for_each_Cons_Inr simp del: for_each.simps(2))
  from dist have n1: "n \<notin> fst ` set ms1" and n2: "n \<notin> fst ` set ms2"
    by auto
  from daemon_entry_bad_schedule(1) [OF bad sch B] have vB: "vB = Skipped \<or> (\<exists>e. vB = Errored n e)" .
  then have sel: "selected vs = selected (vs1 @ vs2)"
    unfolding vs by auto
  from vB have lg: "filter (\<lambda>l. fst l \<noteq> n) (logged [vB]) = []"
    by auto
  have "for_each ?f (ms1 @ ms2) = Inr (vs1 @ vs2)"
    using 1 2 by (simp add: for_each_append_Inr)
  moreover have "vs = vs1 @ [vB] @ vs2"
    by (simp add: vs)
  then have "filter (\<lambda>l. fst l \<noteq> n) errs = logged (vs1 @ vs2)"
    unfolding l using lg filter_logged_other [OF 1 n1] filter_logged_other [OF 2 n2]
    by (simp only: logged_append filter_append append_Nil)
  ultimately show "daemon_get_due_mirrors lib now (with_mirrors (JObj kvs) (ms1 @ ms2))
           = Inr (due, filter (\<lambda>l. fst l \<noteq> n) errs)"
    using s sel by (simp add: daemon_get_due_mirrors_def del: with_mirrors_JObj)
  show "n \<notin> due_name ` set due"
  proof
    assume "n \<in> due_name ` set due"
    then obtain d where d: "d \<in> set due" "due_name d = n" by auto
    from s d(1) have "d \<in> set (selected vs1) \<or> d \<in> set (selected vs2)"
      unfolding sel by (auto dest: sort_by_string_key_set)
    with d(2) n1 n2 show False
      using daemon_selected_names [OF 1] daemon_selected_names [OF 2] by auto
  qed
  assume "truthy (case map_of flds ''enabled'' of None \<Rightarrow> JBool True | Some v \<Rightarrow> v)"
  from daemon_entry_bad_schedule(2) [OF bad sch B this] obtain e where "vB = Errored n e" ..
  then show "\<exists>e. (n, e) \<in> set errs"
    unfolding l vs by auto
qed

lemma for_each_append:
  "for_each f (xs @ ys) =
     (case for_each f xs of
        Inl e \<Rightarrow> Inl e
      | Inr vs \<Rightarrow> (case for_each f ys of Inl e \<Rightarrow> Inl e | Inr ws \<Rightarrow> Inr (vs @ ws)))"
  by (induction xs) (auto split: sum.splits)

lemma manager_try_bad_schedule:
  assumes "\<forall>a. croniter_next lib schedule a = None" and "map_of flds ''schedule'' = Some schedule"
  shows "\<exists>e. manager_try lib now (JObj flds) = Inl e"
proof -
  let ?start = "if truthy (case map_of flds ''last_sync'' of None \<Rightarrow> JNull | Some v \<Rightarrow> v) then
                py_bind (py_getitem (JObj flds) ''last_sync'') (\<lambda>v.
                  case v of
                    JStr s \<Rightarrow> (case fromisoformat lib s of None \<Rightarrow> Inl ValueError | Some d \<Rightarrow> Inr d)
                  | _ \<Rightarrow> Inl TypeError)
              else Inr (Datetime now None)"
  have "manager_try lib now (JObj flds)
        = py_bind ?start (\<lambda>start. py_bind (cron_next lib schedule start) (\<lambda>next_sync. le_now next_sync now))"
    using assms(2) by (simp add: manager_try_def)
  also have "\<exists>e. \<dots> = Inl e"
    using assms(1) by (cases ?start) (simp_all add: cron_next_def)
  finally show ?thesis .
qed

lemma manager_entry_bad_schedule:
  assumes "\<forall>a. croniter_next lib schedule a = None" and "map_of flds ''schedule'' = Some schedule"
  shows "manager_entry lib now (n, JObj flds)
         = Inr (if \<not> truthy (case map_of flds ''enabled'' of None \<Rightarrow> JBool False | Some v \<Rightarrow> v) then Skipped
                else if stored_last_sync (JObj flds) = JNull then Is_due (n, JObj flds)
                else Not_due)"
proof -
  from manager_try_bad_schedule [OF assms] obtain e where "manager_try lib now (JObj flds) = Inl e"
    by blast
  then show ?thesis
    by (simp add: manager_entry_def stored_last_sync_def)
qed

lemma manager_selected_names:
  assumes "for_each (manager_entry lib now) items = Inr vs" and "x \<in> set (selected vs)"
  shows "fst x \<in> fst ` set items"
proof -
  from assms(2) have "Is_due x \<in> set vs" by (simp add: set_selected)
  with assms(1) obtain item where i: "item \<in> set items" "manager_entry lib now item = Inr (Is_due x)"
    by (blast dest: for_each_member)
  obtain n m where nm: "item = (n, m)" by (cases item)
  with i(2) have "x = (n, m)" by (simp add: manager_entry_Is_due_iff)
  with i(1) nm show ?thesis by force
qed

lemma filter_selected_other:
  assumes "for_each (manager_entry lib now) items = Inr vs" and "n \<notin> fst ` set items"
  shows "filter (\<lambda>x. fst x \<noteq> n) (selected vs) = selected vs"
  using manager_selected_names [OF assms(1)] assms(2) by (auto simp: filter_id_conv)

lemma manager_due_list_with_mirrors:
  "manager_due_list lib now (with_mirrors (JObj kvs) items)
   = (case for_each (manager_entry lib now) items of
        Inl e \<Rightarrow> []
      | Inr vs \<Rightarrow> sort_key (\<lambda>x. last_sync_key (stored_last_sync (snd x))) (selected vs))"
  by (cases "for_each (manager_entry lib now) items")
     (simp_all add: manager_due_list_def manager_get_due_mirrors_def manager_sort_total manager_key_eq
        del: with_mirrors_JObj)

lemma manager_bad_entry:
  assumes bad: "\<forall>a. croniter_next lib schedule a = None"
    and sch: "map_of flds ''schedule'' = Some schedule"
    and dist: "distinct (map fst (ms1 @ (n, JObj flds) # ms2))"
  shows "manager_due_list lib now (with_mirrors (JObj kvs) (ms1 @ ms2))
         = filter (\<lambda>x. fst x \<noteq> n) (manager_due_list lib now (with_mirrors (JObj kvs) (ms1 @ (n, JObj flds) # ms2)))"
    and "manager_get_due_mirrors lib now (with_mirrors (JObj kvs) (ms1 @ (n, JObj flds) # ms2)) = Inr due \<Longrightarrow>
         n \<in> fst ` set due \<longleftrightarrow>
           truthy (case map_of flds ''enabled'' of None \<Rightarrow> JBool False | Some v \<Rightarrow> v)
           \<and> stored_last_sync (JObj flds) = JNull"
proof -
  let ?f = "manager_entry lib now"
  let ?B = "(n, JObj flds)"
  let ?K = "\<lambda>x. last_sync_key (stored_last_sync (snd x))"
  from dist have n1: "n \<notin> fst ` set ms1" and n2: "n \<notin> fst ` set ms2"
    by auto
  obtain vB where B: "?f ?B = Inr vB"
    and vB: "vB = (if \<not> truthy (case map_of flds ''enabled'' of None \<Rightarrow> JBool False | Some v \<Rightarrow> v) then Skipped
                else if stored_last_sync (JObj flds) = JNull then Is_due ?B
                else Not_due)"
    using manager_entry_bad_schedule [OF bad sch] by blast
  have fB: "filter (\<lambda>x. fst x \<noteq> n) (selected [vB]) = []"
    by (simp add: vB)
  show "manager_due_list lib now (with_mirrors (JObj kvs) (ms1 @ ms2))
         = filter (\<lambda>x. fst x \<noteq> n) (manager_due_list lib now (with_mirrors (JObj kvs) (ms1 @ ?B # ms2)))"
  proof (cases "for_each ?f ms1")
    case (Inl e)
    then show ?thesis
      by (simp add: manager_due_list_with_mirrors for_each_append del: with_mirrors_JObj)
  next
    case 1: (Inr vs1)
    show ?thesis
    proof (cases "for_each ?f ms2")
      case (Inl e)
      with 1 B show ?thesis
        by (simp add: manager_due_list_with_mirrors for_each_append del: with_mirrors_JObj)
    next
      case 2: (Inr vs2)
      have "filter (\<lambda>x. fst x \<noteq> n) (selected (vs1 @ [vB] @ vs2)) = selected (vs1 @ vs2)"
        using fB filter_selected_other [OF 1 n1] filter_selected_other [OF 2 n2]
        by (simp only: selected_append filter_append append_Nil)
      with 1 2 B show ?thesis
        by (simp add: manager_due_list_with_mirrors for_each_append filter_sort del: with_mirrors_JObj)
    qed
  qed
  assume r: "manager_get_due_mirrors lib now (with_mirrors (JObj kvs) (ms1 @ ?B # ms2)) = Inr due"
  then obtain vs where f: "for_each ?f (ms1 @ ?B # ms2) = Inr vs"
    and s: "sort_by_string_key (\<lambda>x. py_bind (py_get (snd x) ''last_sync'' JNull) (\<lambda>v. Inr (py_or v (JStr [])))) (selected vs) = Inr due"
    by (auto simp: manager_get_due_mirrors_def py_bind_eq_Inr simp del: with_mirrors_JObj)
  from f B obtain vs1 vs2 where 1: "for_each ?f ms1 = Inr vs1"
    and 2: "for_each ?f ms2 = Inr vs2" and vs: "vs = vs1 @ [vB] @ vs2"
    by (auto simp: for_each_append_Inr for_each_Cons_Inr simp del: for_each.simps(2))
  from s have "set due = set (selected vs)"
    by (rule sort_by_string_key_set)
  then have "n \<in> fst ` set due \<longleftrightarrow> n \<in> fst ` set (selected [vB])"
    unfolding vs using manager_selected_names [OF 1] manager_selected_names [OF 2] n1 n2
    by (auto simp only: selected_append set_append image_Un)
  also have "\<dots> \<longleftrightarrow> truthy (case map_of flds ''enabled'' of None \<Rightarrow> JBool False | Some v \<Rightarrow> v)
           \<and> stored_last_sync (JObj flds) = JNull"
    by (simp add: vB)
  finally show "n \<in> fst ` set due \<longleftrightarrow>
           truthy (case map_of flds ''enabled'' of None \<Rightarrow> JBool False | Some v \<Rightarrow> v)
           \<and> stored_last_sync (JObj flds) = JNull" .
qed

lemma with_mirrors_example_base: "with_mirrors example_base items = example_config items"
  by (simp add: example_base_def example_config_def)

lemma every_day_unparsable: "\<forall>a. croniter_next example_lib (JStr ''every day'') a = None"
  by (simp add: example_lib_def croniter_example_def split: datetime.splits prod.splits)

section \<open>Where the daemon and the CLI manager agree\<close>




section \<open>Saving the configuration and rotating the logs\<close>

text \<open>
  Claim C1 (every save of the configuration is crash-atomic, the daemon's save
  included).  The CLI manager's save is (\<open>save_crash_atomic\<close>,
  \<open>save_complete\<close>).  The daemon's \<open>save_config\<close> opens the configuration file
  itself for writing: a process that dies right after the open leaves the file
  empty, whatever it held before, and one that dies after the first piece of
  text leaves only that piece.
\<close>

theorem save_config_not_crash_atomic:
  "map_of (crash_after 1 (save_config_steps config_file chunks) fs) config_file = Some []
   \<and> map_of (crash_after 2 (save_config_steps config_file (c # cs)) fs) config_file = Some c"
  by (simp add: crash_after_def save_config_steps_def update_conv' numeral_2_eq_2)

text \<open>
  Claim C3 (a rotation deletes the oldest backup beyond the retention count,
  shifts the others up and makes the active file backup 1; no backup beyond 3
  ever exists).  The logger module does so (\<open>rotate_logs_keeps_three\<close>).  The
  daemon's \<open>check_rotation\<close> sorts the backup names in descending order and
  then deletes the tail of that list: with three backups present it removes
  backup 1, the youngest, moves backup 3 to a fourth slot and backup 2 to slot 3.
  A file is given here by its size and a label for its contents.
\<close>

theorem check_rotation_drops_youngest_backup:
  "check_rotation fst
     [(LOG_FILE, (10485760, ''A4'')), (LOG_FILE @ ''.1'', (10485760, ''A3'')),
      (LOG_FILE @ ''.2'', (10485760, ''A2'')), (LOG_FILE @ ''.3'', (10485760, ''A1''))]
   = [(LOG_FILE @ ''.4'', (10485760, ''A1'')), (LOG_FILE @ ''.3'', (10485760, ''A2'')),
      (LOG_FILE @ ''.1'', (10485760, ''A4''))]"
  by code_simp

section \<open>The recorded status of a synchronisation\<close>




section \<open>Mirrors that were never synchronised\<close>

text \<open>
  Claim C4 (an enabled mirror that was never synced is due at every evaluation,
  whatever its schedule).  The daemon starts the cron evaluation of such a
  mirror at the first of January 2000, so the mirror is due as soon as the next
  cron time after that date has passed (\<open>daemon_never_synced_due\<close>).  The CLI
  manager starts it at the evaluation time itself, and a cron time after the
  evaluation time is not at or before it (\<open>manager_never_synced_not_due\<close>): a
  mirror that \<open>enable_mirror\<close> has just created is not on the manager's due
  list, while it is on the daemon's.
\<close>

theorem manager_misses_never_synced_mirror:
  "manager_due_names example_lib (2024, 1, 2, 0, 0, 0, 0)
     (example_config [(''linux'', JObj (example_entry (JBool True) (JStr ''0 */6 * * *'') JNull))]) = []
   \<and> daemon_due_names example_lib (2024, 1, 2, 0, 0, 0, 0)
     (example_config [(''linux'', JObj (example_entry (JBool True) (JStr ''0 */6 * * *'') JNull))]) = [''linux'']"
  by code_simp

section \<open>A schedule that cannot be parsed\<close>

text \<open>
  Claim C6 (an entry whose schedule cannot be parsed is skipped and logged, and
  the other entries are evaluated as without it), as the code has it.  Let the
  mirrors be \<open>ms1\<close>, then the entry \<open>n\<close> whose schedule no cron evaluation
  accepts, then \<open>ms2\<close>.
  \<^item> The daemon never returns \<open>n\<close>.  When its call returns, it returns the due
    list of the configuration without \<open>n\<close>, its error lines are those of that
    configuration and, if \<open>n\<close> is enabled, one for \<open>n\<close>.
  \<^item> The CLI manager writes no log.  Its list without \<open>n\<close> is its list with
    \<open>n\<close> left out; and it does return \<open>n\<close> when \<open>n\<close> is enabled and its
    \<open>last_sync\<close> is \<open>None\<close>, as its \<open>except\<close> branch says.
\<close>

theorem unparsable_schedule_entry:
  assumes "\<forall>a. croniter_next lib schedule a = None"
    and "map_of flds ''schedule'' = Some schedule"
    and "distinct (map fst (ms1 @ (n, JObj flds) # ms2))"
  shows "n \<notin> set (daemon_due_names lib now (with_mirrors (JObj kvs) (ms1 @ (n, JObj flds) # ms2)))
       \<and> (\<forall>due errs.
            daemon_get_due_mirrors lib now (with_mirrors (JObj kvs) (ms1 @ (n, JObj flds) # ms2)) = Inr (due, errs)
            \<longrightarrow> daemon_get_due_mirrors lib now (with_mirrors (JObj kvs) (ms1 @ ms2))
                  = Inr (due, filter (\<lambda>l. fst l \<noteq> n) errs)
                \<and> (truthy (case map_of flds ''enabled'' of None \<Rightarrow> JBool True | Some v \<Rightarrow> v)
                     \<longrightarrow> (\<exists>e. (n, e) \<in> set errs)))
       \<and> manager_due_list lib now (with_mirrors (JObj kvs) (ms1 @ ms2))
           = filter (\<lambda>x. fst x \<noteq> n)
               (manager_due_list lib now (with_mirrors (JObj kvs) (ms1 @ (n, JObj flds) # ms2)))
       \<and> (\<forall>due.
            manager_get_due_mirrors lib now (with_mirrors (JObj kvs) (ms1 @ (n, JObj flds) # ms2)) = Inr due
            \<longrightarrow> (n \<in> fst ` set due \<longleftrightarrow>
                   truthy (case map_of flds ''enabled'' of None \<Rightarrow> JBool False | Some v \<Rightarrow> v)
                   \<and> stored_last_sync (JObj flds) = JNull))"
proof (intro conjI allI impI)
  show "n \<notin> set (daemon_due_names lib now (with_mirrors (JObj kvs) (ms1 @ (n, JObj flds) # ms2)))"
  proof (cases "daemon_get_due_mirrors lib now (with_mirrors (JObj kvs) (ms1 @ (n, JObj flds) # ms2))")
    case (Inl e)
    then show ?thesis by (simp add: daemon_due_names_def)
  next
    case (Inr r)
    obtain due errs where "r = (due, errs)" by (cases r)
    with Inr daemon_bad_entry(2) [OF assms, of now kvs due errs] show ?thesis
      by (simp add: daemon_due_names_def)
  qed
next
  fix due errs
  assume r: "daemon_get_due_mirrors lib now (with_mirrors (JObj kvs) (ms1 @ (n, JObj flds) # ms2)) = Inr (due, errs)"
  show "daemon_get_due_mirrors lib now (with_mirrors (JObj kvs) (ms1 @ ms2))
          = Inr (due, filter (\<lambda>l. fst l \<noteq> n) errs)"
    using assms r by (rule daemon_bad_entry(1))
  assume "truthy (case map_of flds ''enabled'' of None \<Rightarrow> JBool True | Some v \<Rightarrow> v)"
  with assms r show "\<exists>e. (n, e) \<in> set errs"
    by (rule daemon_bad_entry(3))
next
  show "manager_due_list lib now (with_mirrors (JObj kvs) (ms1 @ ms2))
           = filter (\<lambda>x. fst x \<noteq> n)
               (manager_due_list lib now (with_mirrors (JObj kvs) (ms1 @ (n, JObj flds) # ms2)))"
    using assms by (rule manager_bad_entry(1))
next
  fix due
  assume "manager_get_due_mirrors lib now (with_mirrors (JObj kvs) (ms1 @ (n, JObj flds) # ms2)) = Inr due"
  with assms show "n \<in> fst ` set due \<longleftrightarrow>
                   truthy (case map_of flds ''enabled'' of None \<Rightarrow> JBool False | Some v \<Rightarrow> v)
                   \<and> stored_last_sync (JObj flds) = JNull"
    by (rule manager_bad_entry(2))
qed

theorem unparsable_schedule_entry_witness:
  "''b'' \<notin> set (daemon_due_names example_lib (2024, 1, 2, 0, 0, 0, 0)
      (example_config
         [(''a'', JObj (example_entry (JBool True) (JStr ''0 */6 * * *'') (JStr ''2024-01-01T00:00:00''))),
          (''b'', JObj (example_entry (JBool True) (JStr ''every day'') (JStr ''2024-01-01T00:00:00'')))]))
   \<and> daemon_get_due_mirrors example_lib (2024, 1, 2, 0, 0, 0, 0)
       (example_config
          [(''a'', JObj (example_entry (JBool True) (JStr ''0 */6 * * *'') (JStr ''2024-01-01T00:00:00'')))])
     = Inr ([Due_mirror ''a'' (JInt 600) (JStr ''2024-01-01T00:00:00'')], [])
   \<and> manager_due_list example_lib (2024, 1, 2, 0, 0, 0, 0)
       (example_config
          [(''a'', JObj (example_entry (JBool True) (JStr ''0 */6 * * *'') (JStr ''2024-01-01T00:00:00'')))])
     = filter (\<lambda>x. fst x \<noteq> ''b'')
         (manager_due_list example_lib (2024, 1, 2, 0, 0, 0, 0)
            (example_config
               [(''a'', JObj (example_entry (JBool True) (JStr ''0 */6 * * *'') (JStr ''2024-01-01T00:00:00''))),
                (''b'', JObj (example_entry (JBool True) (JStr ''every day'') (JStr ''2024-01-01T00:00:00'')))]))"
proof -
  let ?a = "(''a'', JObj (example_entry (JBool True) (JStr ''0 */6 * * *'') (JStr ''2024-01-01T00:00:00'')))"
  let ?flds = "example_entry (JBool True) (JStr ''every day'') (JStr ''2024-01-01T00:00:00'')"
  have s: "map_of ?flds ''schedule'' = Some (JStr ''every day'')"
    by (simp add: example_entry_def)
  have d: "distinct (map fst ([?a] @ (''b'', JObj ?flds) # []))"
    by simp
  have r: "daemon_get_due_mirrors example_lib (2024, 1, 2, 0, 0, 0, 0)
             (example_config ([?a] @ (''b'', JObj ?flds) # []))
           = Inr ([Due_mirror ''a'' (JInt 600) (JStr ''2024-01-01T00:00:00'')], [(''b'', LibraryError)])"
    by code_simp
  have e: "example_base = JObj [(''version'', JStr ''1.0''), (''defaults'', example_defaults)]"
    by (simp add: example_base_def)
  from unparsable_schedule_entry [OF every_day_unparsable s d,
      of "(2024, 1, 2, 0, 0, 0, 0)" "[(''version'', JStr ''1.0''), (''defaults'', example_defaults)]"]
  show ?thesis
    unfolding e [symmetric] with_mirrors_example_base using r by simp
qed

text \<open>
  The claim as stated fails for the CLI manager: a never-synced mirror with the
  schedule \<open>every day\<close>, which is no cron expression, is on its due list.
\<close>

theorem manager_returns_unparsable_entry:
  "(\<forall>a. croniter_next example_lib (JStr ''every day'') a = None)
   \<and> manager_due_names example_lib (2024, 1, 2, 0, 0, 0, 0)
       (example_config [(''b'', JObj (example_entry (JBool True) (JStr ''every day'') JNull))]) = [''b'']"
proof
  show "\<forall>a. croniter_next example_lib (JStr ''every day'') a = None"
    by (rule every_day_unparsable)
  show "manager_due_names example_lib (2024, 1, 2, 0, 0, 0, 0)
       (example_config [(''b'', JObj (example_entry (JBool True) (JStr ''every day'') JNull))]) = [''b'']"
    by code_simp
qed

section \<open>The order of the due list\<close>




section \<open>Updating the status of an unknown mirror\<close>

text \<open>
  Claim C8 (an update for a name that is not in \<open>mirrors\<close> is a no-op that
  reports failure and leaves the configuration unchanged), as the code has it:
  for such a name both versions return at once, with the configuration and the
  files untouched.  The CLI manager returns \<open>False\<close>.  The daemon's version
  returns \<open>None\<close>, and \<open>None\<close> is all it ever returns, so its caller is told
  nothing.
\<close>

theorem update_sync_status_unknown_name:
  assumes "py_getitem config ''mirrors'' = Inr (JObj ms)" and "map_of ms repo_name = None"
  shows "manager_update_sync_status lib config_file t1 t2 fault repo_name status error duration (config, fs)
           = (Inr (JBool False), config, fs)
       \<and> daemon_update_sync_status lib t1 t2 fault repo_name status error (config, fs)
           = (Inr JNull, config, fs)
       \<and> (\<forall>name st r. fst (daemon_update_sync_status lib t1 t2 fault name status error st) = Inr r
             \<longrightarrow> r = JNull)"
proof (intro conjI allI impI)
  from assms(1) obtain kvs where c: "config = JObj kvs" "map_of kvs ''mirrors'' = Some (JObj ms)"
    by (auto simp: py_getitem_Inr)
  show "manager_update_sync_status lib config_file t1 t2 fault repo_name status error duration (config, fs)
           = (Inr (JBool False), config, fs)"
    using c assms(2) by (simp add: manager_update_sync_status_def)
  show "daemon_update_sync_status lib t1 t2 fault repo_name status error (config, fs)
           = (Inr JNull, config, fs)"
    using c assms(2) by (simp add: daemon_update_sync_status_def)
next
  fix name st r
  assume "fst (daemon_update_sync_status lib t1 t2 fault name status error st) = Inr r"
  then show "r = JNull" by (rule daemon_returns_None)
qed

theorem update_sync_status_unknown_name_witness:
  "manager_update_sync_status example_lib CONFIG_FILE (2024, 1, 2, 0, 0, 0, 0) (2024, 1, 2, 0, 0, 0, 1) None
       ''ghost'' ''success'' JNull JNull
       (example_config [(''linux'', JObj (example_entry (JBool True) (JStr ''0 */6 * * *'') JNull))], [])
     = (Inr (JBool False),
        example_config [(''linux'', JObj (example_entry (JBool True) (JStr ''0 */6 * * *'') JNull))], [])
   \<and> daemon_update_sync_status example_lib (2024, 1, 2, 0, 0, 0, 0) (2024, 1, 2, 0, 0, 0, 1) None
       ''ghost'' ''success'' JNull
       (example_config [(''linux'', JObj (example_entry (JBool True) (JStr ''0 */6 * * *'') JNull))], [])
     = (Inr JNull,
        example_config [(''linux'', JObj (example_entry (JBool True) (JStr ''0 */6 * * *'') JNull))], [])"
proof -
  have 1: "py_getitem (example_config [(''linux'', JObj (example_entry (JBool True) (JStr ''0 */6 * * *'') JNull))]) ''mirrors''
           = Inr (JObj [(''linux'', JObj (example_entry (JBool True) (JStr ''0 */6 * * *'') JNull))])"
    by (simp add: example_config_def)
  have 2: "map_of [(''linux'', JObj (example_entry (JBool True) (JStr ''0 */6 * * *'') JNull))] ''ghost'' = None"
    by simp
  from update_sync_status_unknown_name [OF 1 2] show ?thesis
    by blast
qed

text \<open>
  The claim as stated fails for the daemon: the call for the unknown name
  \<open>ghost\<close> and the successful call for \<open>linux\<close> return the same value.
\<close>

theorem daemon_update_sync_status_reports_nothing:
  "fst (daemon_update_sync_status example_lib (2024, 1, 2, 0, 0, 0, 0) (2024, 1, 2, 0, 0, 0, 1) None
          ''ghost'' ''success'' JNull
          (example_config [(''linux'', JObj (example_entry (JBool True) (JStr ''0 */6 * * *'') JNull))], []))
     = Inr JNull
   \<and> fst (daemon_update_sync_status example_lib (2024, 1, 2, 0, 0, 0, 0) (2024, 1, 2, 0, 0, 0, 1) None
          ''linux'' ''success'' JNull
          (example_config [(''linux'', JObj (example_entry (JBool True) (JStr ''0 */6 * * *'') JNull))], []))
     = Inr JNull
   \<and> recorded_status (fst (snd (daemon_update_sync_status example_lib (2024, 1, 2, 0, 0, 0, 0) (2024, 1, 2, 0, 0, 0, 1) None
          ''linux'' ''success'' JNull
          (example_config [(''linux'', JObj (example_entry (JBool True) (JStr ''0 */6 * * *'') JNull))], [])))) ''linux''
     = Inr (JStr ''success'')"
  by code_simp

section \<open>Disabling a mirror\<close>

text \<open>
  Claim C9 (disabling a mirror changes only its \<open>enabled\<close> field, and a disabled
  mirror is never on the due list).  For a mirror that is in the configuration,
  \<open>disable_mirror\<close> returns the result of the save and leaves a configuration in
  which the mirror's \<open>enabled\<close> is \<open>False\<close>, its other fields, the other mirrors
  and the other top-level keys are what they were.  And in any configuration,
  at any time, a mirror whose \<open>enabled\<close> field is false is on neither the daemon's
  nor the manager's due list.
\<close>

theorem disable_mirror_flips_enabled_only:
  assumes "py_getitem config ''mirrors'' = Inr (JObj ms)"
    and "map_of ms repo_name = Some (JObj flds)"
    and "py_getitem config2 ''mirrors'' = Inr (JObj ms2)"
    and "distinct (map fst ms2)"
    and "map_of ms2 n = Some (JObj flds2)"
    and "map_of flds2 ''enabled'' = Some v"
    and "\<not> truthy v"
  shows "(\<exists>ok fs' config' ms' flds'.
            disable_mirror lib config_file fault repo_name (config, fs) = (Inr (JBool ok), config', fs')
            \<and> py_getitem config' ''mirrors'' = Inr (JObj ms')
            \<and> map_of ms' repo_name = Some (JObj flds')
            \<and> map_of flds' ''enabled'' = Some (JBool False)
            \<and> (\<forall>k. k \<noteq> ''enabled'' \<longrightarrow> map_of flds' k = map_of flds k)
            \<and> (\<forall>r. r \<noteq> repo_name \<longrightarrow> map_of ms' r = map_of ms r)
            \<and> (\<forall>k. k \<noteq> ''mirrors'' \<longrightarrow> py_getitem config' k = py_getitem config k))
         \<and> n \<notin> set (daemon_due_names lib now config2)
         \<and> n \<notin> set (manager_due_names lib now config2)"
proof (intro conjI)
  from assms(1) obtain kvs where c: "config = JObj kvs" and m: "map_of kvs ''mirrors'' = Some (JObj ms)"
    by (auto simp: py_getitem_Inr)
  let ?flds' = "AList.update ''enabled'' (JBool False) flds"
  let ?ms' = "AList.update repo_name (JObj ?flds') ms"
  let ?config' = "JObj (AList.update ''mirrors'' (JObj ?ms') kvs)"
  from disable_mirror_present [OF m assms(2)] obtain ok fs' where
    d: "disable_mirror lib config_file fault repo_name (config, fs) = (Inr (JBool ok), ?config', fs')"
    unfolding c by blast
  have "py_getitem ?config' ''mirrors'' = Inr (JObj ?ms')"
    and "map_of ?ms' repo_name = Some (JObj ?flds')"
    and "map_of ?flds' ''enabled'' = Some (JBool False)"
    and "\<forall>k. k \<noteq> ''enabled'' \<longrightarrow> map_of ?flds' k = map_of flds k"
    and "\<forall>r. r \<noteq> repo_name \<longrightarrow> map_of ?ms' r = map_of ms r"
    and "\<forall>k. k \<noteq> ''mirrors'' \<longrightarrow> py_getitem ?config' k = py_getitem config k"
    by (simp_all add: update_conv' c)
  with d show "\<exists>ok fs' config' ms' flds'.
            disable_mirror lib config_file fault repo_name (config, fs) = (Inr (JBool ok), config', fs')
            \<and> py_getitem config' ''mirrors'' = Inr (JObj ms')
            \<and> map_of ms' repo_name = Some (JObj flds')
            \<and> map_of flds' ''enabled'' = Some (JBool False)
            \<and> (\<forall>k. k \<noteq> ''enabled'' \<longrightarrow> map_of flds' k = map_of flds k)
            \<and> (\<forall>r. r \<noteq> repo_name \<longrightarrow> map_of ms' r = map_of ms r)
            \<and> (\<forall>k. k \<noteq> ''mirrors'' \<longrightarrow> py_getitem config' k = py_getitem config k)"
    by blast
  show "n \<notin> set (daemon_due_names lib now config2)"
    using assms(3-7) by (rule disabled_not_due_daemon)
  show "n \<notin> set (manager_due_names lib now config2)"
    using assms(3-7) by (rule disabled_not_due_manager)
qed

theorem disable_mirror_flips_enabled_only_witness:
  "(\<exists>ok fs' config' ms' flds'.
      disable_mirror example_lib CONFIG_FILE None ''linux''
        (example_config [(''linux'', JObj (example_entry (JBool True) (JStr ''0 */6 * * *'') (JStr ''2024-01-01T00:00:00'')))], [])
        = (Inr (JBool ok), config', fs')
      \<and> py_getitem config' ''mirrors'' = Inr (JObj ms')
      \<and> map_of ms' ''linux'' = Some (JObj flds')
      \<and> map_of flds' ''enabled'' = Some (JBool False)
      \<and> (\<forall>k. k \<noteq> ''enabled'' \<longrightarrow>
             map_of flds' k = map_of (example_entry (JBool True) (JStr ''0 */6 * * *'') (JStr ''2024-01-01T00:00:00'')) k)
      \<and> (\<forall>r. r \<noteq> ''linux'' \<longrightarrow>
             map_of ms' r = map_of [(''linux'', JObj (example_entry (JBool True) (JStr ''0 */6 * * *'') (JStr ''2024-01-01T00:00:00'')))] r)
      \<and> (\<forall>k. k \<noteq> ''mirrors'' \<longrightarrow>
             py_getitem config' k
             = py_getitem (example_config [(''linux'', JObj (example_entry (JBool True) (JStr ''0 */6 * * *'') (JStr ''2024-01-01T00:00:00'')))]) k))
   \<and> ''linux'' \<notin> set (daemon_due_names example_lib (2024, 1, 2, 0, 0, 0, 0)
         (example_config [(''linux'', JObj (example_entry (JBool False) (JStr ''0 */6 * * *'') (JStr ''2024-01-01T00:00:00'')))]))
   \<and> ''linux'' \<notin> set (manager_due_names example_lib (2024, 1, 2, 0, 0, 0, 0)
         (example_config [(''linux'', JObj (example_entry (JBool False) (JStr ''0 */6 * * *'') (JStr ''2024-01-01T00:00:00'')))]))"
proof (rule disable_mirror_flips_enabled_only [where v = "JBool False"])
  show "py_getitem (example_config [(''linux'', JObj (example_entry (JBool True) (JStr ''0 */6 * * *'') (JStr ''2024-01-01T00:00:00'')))]) ''mirrors''
        = Inr (JObj [(''linux'', JObj (example_entry (JBool True) (JStr ''0 */6 * * *'') (JStr ''2024-01-01T00:00:00'')))])"
    by (simp add: example_config_def)
  show "map_of [(''linux'', JObj (example_entry (JBool True) (JStr ''0 */6 * * *'') (JStr ''2024-01-01T00:00:00'')))] ''linux''
        = Some (JObj (example_entry (JBool True) (JStr ''0 */6 * * *'') (JStr ''2024-01-01T00:00:00'')))"
    by simp
  show "py_getitem (example_config [(''linux'', JObj (example_entry (JBool False) (JStr ''0 */6 * * *'') (JStr ''2024-01-01T00:00:00'')))]) ''mirrors''
        = Inr (JObj [(''linux'', JObj (example_entry (JBool False) (JStr ''0 */6 * * *'') (JStr ''2024-01-01T00:00:00'')))])"
    by (simp add: example_config_def)
  show "distinct (map fst [(''linux'', JObj (example_entry (JBool False) (JStr ''0 */6 * * *'') (JStr ''2024-01-01T00:00:00'')))])"
    by simp
  show "map_of [(''linux'', JObj (example_entry (JBool False) (JStr ''0 */6 * * *'') (JStr ''2024-01-01T00:00:00'')))] ''linux''
        = Some (JObj (example_entry (JBool False) (JStr ''0 */6 * * *'') (JStr ''2024-01-01T00:00:00'')))"
    by simp
  show "map_of (example_entry (JBool False) (JStr ''0 */6 * * *'') (JStr ''2024-01-01T00:00:00'')) ''enabled'' = Some (JBool False)"
    by (simp add: example_entry_def)
  show "\<not> truthy (JBool False)"
    by simp
qed

section \<open>The daemon against the CLI manager\<close>




end
